theory Spec2Isabelle
  imports Main
begin

section \<open>JavaScript values as the client receives them\<close>

text \<open>
  The client (static/app.js) only handles values that \<open>Response.json()\<close> produced, so a
  value is a JSON value or \<open>undefined\<close> (the result of reading an absent property).
  JavaScript numbers are IEEE doubles; their type is left open as \<open>'n\<close>, and the two
  things the code does with a number (converting it to a string inside a template
  literal, testing it for truthiness) are taken from a record of operations.
  An object is the list of its own properties; \<open>JSON.parse\<close> yields distinct keys.
\<close>

datatype 'n jsval =
    JUndefined
  | JNull
  | JBool bool
  | JNum 'n
  | JStr string
  | JArr "'n jsval list"
  | JObj "(string \<times> 'n jsval) list"

record 'n numops =
  num_str :: "'n \<Rightarrow> string"
  num_falsy :: "'n \<Rightarrow> bool"

text \<open>
  What the code can throw or reject with. \<open>Error m\<close> is \<open>new Error(m)\<close>;
  \<open>TypeError\<close> is the engine's error for a property access on \<open>null\<close> or
  \<open>undefined\<close>, for a call of something that is not a function, and for an object
  that has no primitive value; \<open>SyntaxError\<close> is the rejection of \<open>Response.json()\<close> on
  a body that is not JSON; \<open>NetworkError\<close> is the rejection of \<open>fetch\<close>;
  \<open>NotAllowedError\<close> is the rejection of \<open>navigator.clipboard.writeText\<close>.
\<close>

datatype js_error =
    Error string
  | TypeError
  | SyntaxError
  | NetworkError
  | NotAllowedError

text \<open>\<open>v === null || v === undefined\<close>, also the test of \<open>??\<close>.\<close>

fun nullish :: "'n jsval \<Rightarrow> bool" where
  "nullish JUndefined = True"
| "nullish JNull = True"
| "nullish _ = False"

text \<open>\<open>a ?? b\<close>\<close>

definition nullish_or :: "'n jsval \<Rightarrow> 'n jsval \<Rightarrow> 'n jsval" where
  "nullish_or a b = (if nullish a then b else a)"

text \<open>The test of \<open>c ? a : b\<close> (ToBoolean).\<close>

fun truthy :: "'n numops \<Rightarrow> 'n jsval \<Rightarrow> bool" where
  "truthy ops JUndefined = False"
| "truthy ops JNull = False"
| "truthy ops (JBool b) = b"
| "truthy ops (JNum n) = (\<not> num_falsy ops n)"
| "truthy ops (JStr s) = (s \<noteq> [])"
| "truthy ops (JArr xs) = True"
| "truthy ops (JObj kvs) = True"

text \<open>
  \<open>v.name\<close> for the property names the code reads (\<open>dry_bulb_F\<close>, \<open>station\<close>, ...):
  a TypeError on \<open>null\<close> and \<open>undefined\<close>, the own property of an object or
  \<open>undefined\<close>, and \<open>undefined\<close> on every other value (none of these names is a
  property that a prototype provides).
\<close>

fun get_prop :: "'n jsval \<Rightarrow> string \<Rightarrow> js_error + 'n jsval" where
  "get_prop JUndefined k = Inl TypeError"
| "get_prop JNull k = Inl TypeError"
| "get_prop (JObj kvs) k = (case map_of kvs k of None \<Rightarrow> Inr JUndefined | Some v \<Rightarrow> Inr v)"
| "get_prop _ k = Inr JUndefined"

text \<open>\<open>xs.join(sep)\<close> on strings; the first conversion that throws is the one thrown.\<close>

fun join :: "string \<Rightarrow> string list \<Rightarrow> string" where
  "join sep [] = []"
| "join sep [x] = x"
| "join sep (x # y # ys) = x @ sep @ join sep (y # ys)"

fun sequence :: "(js_error + 'a) list \<Rightarrow> js_error + 'a list" where
  "sequence [] = Inr []"
| "sequence (Inl e # rs) = Inl e"
| "sequence (Inr x # rs) = (case sequence rs of Inl e \<Rightarrow> Inl e | Inr xs \<Rightarrow> Inr (x # xs))"

text \<open>
  ToString, as a template literal applies it to \<open>${v}\<close>. An array converts through
  \<open>Array.prototype.join\<close> (\<open>null\<close> and \<open>undefined\<close> elements give the empty string). An
  object converts through \<open>Object.prototype.toString\<close> unless it has an own property
  \<open>toString\<close>: a JSON value is never callable, so the conversion then finds no
  primitive and throws a TypeError.
\<close>

fun to_string :: "'n numops \<Rightarrow> 'n jsval \<Rightarrow> js_error + string" where
  "to_string ops JUndefined = Inr ''undefined''"
| "to_string ops JNull = Inr ''null''"
| "to_string ops (JBool b) = Inr (if b then ''true'' else ''false'')"
| "to_string ops (JNum n) = Inr (num_str ops n)"
| "to_string ops (JStr s) = Inr s"
| "to_string ops (JArr xs) =
     (case sequence (map (\<lambda>x. if nullish x then Inr [] else to_string ops x) xs) of
        Inl e \<Rightarrow> Inl e
      | Inr ss \<Rightarrow> Inr (join '','' ss))"
| "to_string ops (JObj kvs) =
     (if ''toString'' \<in> fst ` set kvs then Inl TypeError else Inr ''[object Object]'')"

section \<open>function cell(v)\<close>

text \<open>\<open>return `<td>${v === null || v === undefined ? "" : v}</td>`;\<close>\<close>

definition cell :: "'n numops \<Rightarrow> 'n jsval \<Rightarrow> js_error + string" where
  "cell ops v =
     (case to_string ops (if v = JNull \<or> v = JUndefined then JStr [] else v) of
        Inl e \<Rightarrow> Inl e
      | Inr s \<Rightarrow> Inr (''<td>'' @ s @ ''</td>''))"

text \<open>Sequencing of steps that may throw: the first throw ends the evaluation.\<close>

definition bind_e :: "js_error + 'a \<Rightarrow> ('a \<Rightarrow> js_error + 'b) \<Rightarrow> js_error + 'b" where
  "bind_e r f = (case r of Inl e \<Rightarrow> Inl e | Inr x \<Rightarrow> f x)"

section \<open>Requests, responses and the page\<close>

text \<open>
  A request is what \<open>fetch(url, { cache: ... })\<close> sends (the method is GET throughout); a
  response is the status and the bytes of the body, which \<open>r.text()\<close> or \<open>r.json()\<close> reads.
  \<open>r.ok\<close> is true for a status from 200 to 299. A JavaScript string is represented by
  the bytes of its UTF-8 encoding.
\<close>

datatype cache_mode = CacheDefault | NoStore

record request =
  url :: string
  cache :: cache_mode

record response =
  status :: nat
  body :: string

definition ok :: "response \<Rightarrow> bool" where
  "ok r = (200 \<le> status r \<and> status r \<le> 299)"

type_synonym fetch_result = "js_error + response"

text \<open>
  The page: the elements of the document by id, each with the content last assigned to
  it (through \<open>innerHTML\<close> or through \<open>textContent\<close>), the event listeners, the texts
  written to the system clipboard (latest last), the requests issued (latest last) and
  the pending timers with their delays in milliseconds. A timer's callback is the
  closure the code passes: \<open>() => (btn.textContent = s)\<close> is \<open>SetTextContent btn s\<close>.
  A listener or an interval holds a reference to one of the two functions registered.
\<close>

datatype content = InnerHTML string | TextContent string

datatype callback = SetTextContent string string

datatype handler = CopyCSV | RefreshAll

record world =
  elements :: "string \<rightharpoonup> content"
  listeners :: "(string \<times> string \<times> handler) list"
  clipboard :: "string list"
  requests :: "request list"
  timeouts :: "(callback \<times> nat) list"
  intervals :: "(handler \<times> nat) list"

text \<open>\<open>document.getElementById(i)\<close>: the element, or \<open>null\<close> (None).\<close>

definition getElementById :: "string \<Rightarrow> world \<Rightarrow> string option" where
  "getElementById i w = (case elements w i of None \<Rightarrow> None | Some c \<Rightarrow> Some i)"

text \<open>\<open>el.innerHTML = s\<close> and \<open>el.textContent = s\<close>: a TypeError when \<open>el\<close> is \<open>null\<close>.\<close>

definition set_innerHTML :: "string option \<Rightarrow> string \<Rightarrow> world \<Rightarrow> js_error + world" where
  "set_innerHTML el s w =
     (case el of
        None \<Rightarrow> Inl TypeError
      | Some i \<Rightarrow> Inr (w\<lparr>elements := (elements w)(i \<mapsto> InnerHTML s)\<rparr>))"

definition set_textContent :: "string option \<Rightarrow> string \<Rightarrow> world \<Rightarrow> js_error + world" where
  "set_textContent el s w =
     (case el of
        None \<Rightarrow> Inl TypeError
      | Some i \<Rightarrow> Inr (w\<lparr>elements := (elements w)(i \<mapsto> TextContent s)\<rparr>))"

text \<open>\<open>el.addEventListener(ev, h)\<close>\<close>

definition addEventListener ::
  "string option \<Rightarrow> string \<Rightarrow> handler \<Rightarrow> world \<Rightarrow> js_error + world" where
  "addEventListener el ev h w =
     (case el of
        None \<Rightarrow> Inl TypeError
      | Some i \<Rightarrow> Inr (w\<lparr>listeners := listeners w @ [(i, ev, h)]\<rparr>))"

text \<open>\<open>fetch(u, { cache: c })\<close> issues the request; the response arrives later.\<close>

definition fetch :: "string \<Rightarrow> cache_mode \<Rightarrow> world \<Rightarrow> world" where
  "fetch u c w = w\<lparr>requests := requests w @ [\<lparr>url = u, cache = c\<rparr>]\<rparr>"

definition setTimeout :: "callback \<Rightarrow> nat \<Rightarrow> world \<Rightarrow> world" where
  "setTimeout cb ms w = w\<lparr>timeouts := timeouts w @ [(cb, ms)]\<rparr>"

definition setInterval :: "handler \<Rightarrow> nat \<Rightarrow> world \<Rightarrow> world" where
  "setInterval h ms w = w\<lparr>intervals := intervals w @ [(h, ms)]\<rparr>"

text \<open>A timer's callback runs on the element object it captured.\<close>

fun run_callback :: "callback \<Rightarrow> world \<Rightarrow> world" where
  "run_callback (SetTextContent i s) w = w\<lparr>elements := (elements w)(i \<mapsto> TextContent s)\<rparr>"

text \<open>The oldest pending timeout fires (timers of equal delay fire in the order set).\<close>

definition fire_timeout :: "world \<Rightarrow> world" where
  "fire_timeout w =
     (case timeouts w of
        [] \<Rightarrow> w
      | (cb, ms) # rest \<Rightarrow> run_callback cb (w\<lparr>timeouts := rest\<rparr>))"

section \<open>async function getJSON(url)\<close>

text \<open>
  The decimal digits of a status code, as \<open>`HTTP ${r.status}`\<close> prints the integer, and
  the reading of a decimal numeral back.
\<close>

definition digit_char :: "nat \<Rightarrow> char" where
  "digit_char d = ''0123456789'' ! d"

fun show_nat :: "nat \<Rightarrow> string" where
  "show_nat n = (if n < 10 then [digit_char n] else show_nat (n div 10) @ [digit_char (n mod 10)])"

definition digit_val :: "char \<Rightarrow> nat" where
  "digit_val c = of_char c - 48"

definition read_nat :: "string \<Rightarrow> nat" where
  "read_nat s = foldl (\<lambda>a c. 10 * a + digit_val c) 0 s"

text \<open>
  An async function runs up to its first \<open>await\<close> when it is called and resumes when
  the awaited promise settles. \<open>getJSON\<close> issues the request when called
  (\<open>getJSON_start\<close>) and resumes with what \<open>fetch\<close> settled to (\<open>getJSON_resume\<close>):
  \<^verbatim>\<open>if (!r.ok) throw new Error(`HTTP ${r.status}`); return r.json();\<close>
  The parameter \<open>json\<close> is what \<open>r.json()\<close> makes of the bytes of the body (None when they
  are not JSON).
\<close>

definition getJSON_start :: "string \<Rightarrow> world \<Rightarrow> world" where
  "getJSON_start u w = fetch u NoStore w"

definition getJSON_resume :: "(string \<Rightarrow> 'n jsval option) \<Rightarrow> fetch_result \<Rightarrow> js_error + 'n jsval" where
  "getJSON_resume json res =
     (case res of
        Inl e \<Rightarrow> Inl e
      | Inr r \<Rightarrow>
          if \<not> ok r then Inl (Error (''HTTP '' @ show_nat (status r)))
          else (case json (body r) of None \<Rightarrow> Inl SyntaxError | Some v \<Rightarrow> Inr v))"

definition getJSON ::
  "(string \<Rightarrow> 'n jsval option) \<Rightarrow> string \<Rightarrow> fetch_result \<Rightarrow> world \<Rightarrow> (js_error + 'n jsval) \<times> world" where
  "getJSON json u res w = (getJSON_resume json res, getJSON_start u w)"

section \<open>async function loadCurrent()\<close>

text \<open>\<open>${data.k ?? ""}\<close> and \<open>${data.k}\<close> inside a template literal.\<close>

definition subst_or_empty :: "'n numops \<Rightarrow> 'n jsval \<Rightarrow> string \<Rightarrow> js_error + string" where
  "subst_or_empty ops data k =
     bind_e (get_prop data k) (\<lambda>v. to_string ops (nullish_or v (JStr [])))"

definition subst :: "'n numops \<Rightarrow> 'n jsval \<Rightarrow> string \<Rightarrow> js_error + string" where
  "subst ops data k = bind_e (get_prop data k) (to_string ops)"

text \<open>The degree sign of the source text, in the UTF-8 bytes of the source file.\<close>

definition degree :: string where
  "degree = [CHR 0xC2, CHR 0xB0]"

text \<open>
  The template literal assigned to \<open>cc.innerHTML\<close>: four lines, each a labelled value
  with its unit, between the line breaks and the indentation of the source.
\<close>

definition current_panel :: "'n numops \<Rightarrow> 'n jsval \<Rightarrow> js_error + string" where
  \<open>current_panel ops data =
     bind_e (subst_or_empty ops data ''dry_bulb_F'') (\<lambda>dry.
     bind_e (subst_or_empty ops data ''wet_bulb_F'') (\<lambda>wet.
     bind_e (subst_or_empty ops data ''humidity_percent'') (\<lambda>hum.
     bind_e (subst_or_empty ops data ''pressure_inHg'') (\<lambda>pres.
       Inr (''\<newline>    <div><span class="label">Temperature (dry bulb)</span><span class="val">''
            @ dry @ '' '' @ degree @ ''F</span></div>''
          @ ''\<newline>    <div><span class="label">Wet bulb</span><span class="val">''
            @ wet @ '' '' @ degree @ ''F</span></div>''
          @ ''\<newline>    <div><span class="label">Humidity</span><span class="val">''
            @ hum @ '' %</span></div>''
          @ ''\<newline>    <div><span class="label">Pressure</span><span class="val">''
            @ pres @ '' inHg</span></div>''
          @ ''\<newline>  '')))))\<close>

text \<open>
  \<^verbatim>\<open>data.timestamp_local ? `As of ${data.timestamp_local} (${data.station})` : ""\<close>
\<close>

definition stamp_text :: "'n numops \<Rightarrow> 'n jsval \<Rightarrow> js_error + string" where
  "stamp_text ops data =
     bind_e (get_prop data ''timestamp_local'') (\<lambda>ts.
       if truthy ops ts then
         bind_e (subst ops data ''timestamp_local'') (\<lambda>t.
         bind_e (subst ops data ''station'') (\<lambda>s.
           Inr (''As of '' @ t @ '' ('' @ s @ '')'')))
       else Inr [])"

definition loadCurrent_start :: "world \<Rightarrow> world" where
  "loadCurrent_start w = getJSON_start ''/api/current'' w"

definition loadCurrent_resume ::
  "'n numops \<Rightarrow> (string \<Rightarrow> 'n jsval option) \<Rightarrow> fetch_result \<Rightarrow> world \<Rightarrow> (js_error + unit) \<times> world" where
  "loadCurrent_resume ops json res w =
     (case getJSON_resume json res of
        Inl e \<Rightarrow> (Inl e, w)
      | Inr data \<Rightarrow>
          (let cc = getElementById ''currentContent'' w in
           case bind_e (current_panel ops data) (\<lambda>html. set_innerHTML cc html w) of
             Inl e \<Rightarrow> (Inl e, w)
           | Inr w1 \<Rightarrow>
               (case bind_e (stamp_text ops data)
                       (\<lambda>s. set_textContent (getElementById ''stamp'' w1) s w1) of
                  Inl e \<Rightarrow> (Inl e, w1)
                | Inr w2 \<Rightarrow> (Inr (), w2))))"

definition loadCurrent ::
  "'n numops \<Rightarrow> (string \<Rightarrow> 'n jsval option) \<Rightarrow> fetch_result \<Rightarrow> world \<Rightarrow> (js_error + unit) \<times> world" where
  "loadCurrent ops json res w = loadCurrent_resume ops json res (loadCurrent_start w)"

section \<open>async function loadHistory()\<close>

text \<open>\<open>${cell(r.k)}\<close>\<close>

definition cell_of :: "'n numops \<Rightarrow> 'n jsval \<Rightarrow> string \<Rightarrow> js_error + string" where
  "cell_of ops r k = bind_e (get_prop r k) (cell ops)"

text \<open>The template literal of the arrow function that \<open>rows.map\<close> applies to a row.\<close>

definition history_row :: "'n numops \<Rightarrow> 'n jsval \<Rightarrow> js_error + string" where
  "history_row ops r =
     bind_e (cell_of ops r ''timestamp_local'') (\<lambda>c1.
     bind_e (cell_of ops r ''temperature_F'') (\<lambda>c2.
     bind_e (cell_of ops r ''dry_bulb_F'') (\<lambda>c3.
     bind_e (cell_of ops r ''wet_bulb_F'') (\<lambda>c4.
     bind_e (cell_of ops r ''humidity_percent'') (\<lambda>c5.
     bind_e (cell_of ops r ''pressure_inHg'') (\<lambda>c6.
       Inr (''\<newline>    <tr>''
          @ ''\<newline>      '' @ c1
          @ ''\<newline>      '' @ c2
          @ ''\<newline>      '' @ c3
          @ ''\<newline>      '' @ c4
          @ ''\<newline>      '' @ c5
          @ ''\<newline>      '' @ c6
          @ ''\<newline>    </tr>''
          @ ''\<newline>  '')))))))"

text \<open>
  \<open>rows.map(...).join("")\<close>: only an array has \<open>map\<close>; on any other JSON value the call
  throws a TypeError.
\<close>

definition history_body :: "'n numops \<Rightarrow> 'n jsval \<Rightarrow> js_error + string" where
  "history_body ops rows =
     (case rows of
        JArr rs \<Rightarrow> bind_e (sequence (map (history_row ops) rs)) (\<lambda>ss. Inr (join [] ss))
      | _ \<Rightarrow> Inl TypeError)"

definition loadHistory_start :: "world \<Rightarrow> world" where
  "loadHistory_start w = getJSON_start ''/api/history'' w"

definition loadHistory_resume ::
  "'n numops \<Rightarrow> (string \<Rightarrow> 'n jsval option) \<Rightarrow> fetch_result \<Rightarrow> world \<Rightarrow> (js_error + unit) \<times> world" where
  "loadHistory_resume ops json res w =
     (case getJSON_resume json res of
        Inl e \<Rightarrow> (Inl e, w)
      | Inr rows \<Rightarrow>
          (let tbody = getElementById ''histBody'' w in
           case bind_e (history_body ops rows) (\<lambda>html. set_innerHTML tbody html w) of
             Inl e \<Rightarrow> (Inl e, w)
           | Inr w1 \<Rightarrow> (Inr (), w1)))"

definition loadHistory ::
  "'n numops \<Rightarrow> (string \<Rightarrow> 'n jsval option) \<Rightarrow> fetch_result \<Rightarrow> world \<Rightarrow> (js_error + unit) \<times> world" where
  "loadHistory ops json res w = loadHistory_resume ops json res (loadHistory_start w)"

section \<open>await r.text()\<close>

text \<open>
  \<open>r.text()\<close> decodes the bytes of the body as UTF-8, as the Fetch and Encoding standards
  say: a leading byte order mark (EF BB BF) is dropped; a lead byte C2..DF, E0..EF or
  F0..F4 takes one, two or three continuation bytes, the first of them within the bounds
  that the lead byte sets; a byte that cannot start or continue a sequence ends the
  sequence read so far, which becomes the replacement character U+FFFD (EF BF BD), and
  is read again as the start of the next one. The result is the decoded string, in the
  bytes of its UTF-8 encoding.
\<close>

definition byte :: "char \<Rightarrow> nat" where
  "byte c = of_char c"

definition between :: "nat \<Rightarrow> nat \<Rightarrow> char \<Rightarrow> bool" where
  "between lo hi c = (lo \<le> byte c \<and> byte c \<le> hi)"

definition replacement :: string where
  "replacement = [CHR 0xEF, CHR 0xBF, CHR 0xBD]"

definition bom :: string where
  "bom = [CHR 0xEF, CHR 0xBB, CHR 0xBF]"

text \<open>
  For a lead byte: the number of continuation bytes needed, and the lower and upper
  bound of the first of them.
\<close>

definition lead :: "char \<Rightarrow> (nat \<times> nat \<times> nat) option" where
  "lead b =
     (if between 0xC2 0xDF b then Some (1, 0x80, 0xBF)
      else if between 0xE0 0xEF b then
        Some (2, if byte b = 0xE0 then 0xA0 else 0x80, if byte b = 0xED then 0x9F else 0xBF)
      else if between 0xF0 0xF4 b then
        Some (3, if byte b = 0xF0 then 0x90 else 0x80, if byte b = 0xF4 then 0x8F else 0xBF)
      else None)"

text \<open>The continuation bytes that follow a lead byte, at most \<open>k\<close> of them.\<close>

fun trail :: "nat \<Rightarrow> nat \<Rightarrow> nat \<Rightarrow> string \<Rightarrow> string" where
  "trail k lo hi [] = []"
| "trail k lo hi (c # cs) =
     (if 0 < k \<and> between lo hi c then c # trail (k - 1) 0x80 0xBF cs else [])"

function utf8_decode :: "string \<Rightarrow> string" where
  "utf8_decode [] = []"
| "utf8_decode (b # bs) =
     (if between 0x00 0x7F b then b # utf8_decode bs
      else case lead b of
             None \<Rightarrow> replacement @ utf8_decode bs
           | Some (k, lo, hi) \<Rightarrow>
               (let t = trail k lo hi bs
                in if length t = k then b # t @ utf8_decode (drop k bs)
                   else replacement @ utf8_decode (drop (length t) bs)))"
  by pat_completeness auto
termination
  by (relation "measure length") auto

definition response_text :: "response \<Rightarrow> string" where
  "response_text r =
     utf8_decode (if take 3 (body r) = bom then drop 3 (body r) else body r)"

text \<open>
  Well-formed UTF-8, as the Unicode standard tabulates the byte sequences of a code
  point (table 3-7): one byte 00..7F; C2..DF and one continuation byte 80..BF; E0 with
  A0..BF, E1..EC with 80..BF, ED with 80..9F or EE..EF with 80..BF, and one continuation
  byte; F0 with 90..BF, F1..F3 with 80..BF or F4 with 80..8F, and two continuation bytes.
\<close>

fun well_formed_utf8 :: "string \<Rightarrow> bool" where
  "well_formed_utf8 [] = True"
| "well_formed_utf8 (a # bs) =
     (between 0x00 0x7F a \<and> well_formed_utf8 bs
      \<or> (case bs of
            b # r1 \<Rightarrow> between 0xC2 0xDF a \<and> between 0x80 0xBF b \<and> well_formed_utf8 r1
          | [] \<Rightarrow> False)
      \<or> (case bs of
            b # c # r2 \<Rightarrow>
              (between 0xE0 0xE0 a \<and> between 0xA0 0xBF b
               \<or> between 0xE1 0xEC a \<and> between 0x80 0xBF b
               \<or> between 0xED 0xED a \<and> between 0x80 0x9F b
               \<or> between 0xEE 0xEF a \<and> between 0x80 0xBF b)
              \<and> between 0x80 0xBF c \<and> well_formed_utf8 r2
          | _ \<Rightarrow> False)
      \<or> (case bs of
            b # c # d # r3 \<Rightarrow>
              (between 0xF0 0xF0 a \<and> between 0x90 0xBF b
               \<or> between 0xF1 0xF3 a \<and> between 0x80 0xBF b
               \<or> between 0xF4 0xF4 a \<and> between 0x80 0x8F b)
              \<and> between 0x80 0xBF c \<and> between 0x80 0xBF d \<and> well_formed_utf8 r3
          | _ \<Rightarrow> False))"

section \<open>async function copyCSV()\<close>

text \<open>
  The request is issued when the function is called. It resumes with what \<open>fetch\<close>
  settled to, reads the body as text (\<open>await r.text()\<close>) whatever the status, writes it to
  the clipboard
  (\<open>clip_ok\<close> tells whether the browser permits the write; it rejects otherwise), then
  sets the button's label and a timer of 1200 ms whose callback sets the label again.
\<close>

definition copyCSV_start :: "world \<Rightarrow> world" where
  "copyCSV_start w = fetch ''/api/history.csv'' NoStore w"

definition copyCSV_resume :: "bool \<Rightarrow> fetch_result \<Rightarrow> world \<Rightarrow> (js_error + unit) \<times> world" where
  "copyCSV_resume clip_ok res w =
     (case res of
        Inl e \<Rightarrow> (Inl e, w)
      | Inr r \<Rightarrow>
          (let csv = response_text r in
           if \<not> clip_ok then (Inl NotAllowedError, w)
           else
             (let w1 = w\<lparr>clipboard := clipboard w @ [csv]\<rparr>;
                  btn = getElementById ''copyBtn'' w1
              in case btn of
                   None \<Rightarrow> (Inl TypeError, w1)
                 | Some b \<Rightarrow>
                     (case set_textContent btn ''Copied!'' w1 of
                        Inl e \<Rightarrow> (Inl e, w1)
                      | Inr w2 \<Rightarrow>
                          (Inr (),
                           setTimeout (SetTextContent b ''Copy 48h CSV to Clipboard'') 1200 w2)))))"

definition copyCSV :: "bool \<Rightarrow> fetch_result \<Rightarrow> world \<Rightarrow> (js_error + unit) \<times> world" where
  "copyCSV clip_ok res w = copyCSV_resume clip_ok res (copyCSV_start w)"

section \<open>async function refreshAll() and the script's top level\<close>

text \<open>
  A promise is pending, fulfilled or rejected. One call of \<open>refreshAll\<close> has three: the
  promise of \<open>loadCurrent()\<close>, the promise of \<open>loadHistory()\<close> and the promise of
  \<open>Promise.all([...])\<close>, which \<open>refreshAll\<close> awaits and settles with.
\<close>

datatype promise = Pending | Fulfilled | Rejected js_error

record refresh =
  current_promise :: promise
  history_promise :: promise
  all_promise :: promise

fun promise_of :: "js_error + unit \<Rightarrow> promise" where
  "promise_of (Inl e) = Rejected e"
| "promise_of (Inr u) = Fulfilled"

text \<open>
  \<open>Promise.all\<close> of two promises, when one of them (\<open>p\<close>) has just settled and the other
  is \<open>q\<close>: once settled it stays as it is; it rejects with the first rejection and
  fulfils when both have fulfilled.
\<close>

definition promise_all :: "promise \<Rightarrow> promise \<Rightarrow> promise \<Rightarrow> promise" where
  "promise_all old p q =
     (if old \<noteq> Pending then old
      else case p of
             Rejected e \<Rightarrow> Rejected e
           | Fulfilled \<Rightarrow> (if q = Fulfilled then Fulfilled else Pending)
           | Pending \<Rightarrow> Pending)"

text \<open>
  \<open>await Promise.all([loadCurrent(), loadHistory()])\<close>: the array literal calls
  \<open>loadCurrent()\<close> and then \<open>loadHistory()\<close>, each of which runs to its first \<open>await\<close>,
  and only then is anything awaited.
\<close>

definition refreshAll_start :: "world \<Rightarrow> refresh \<times> world" where
  "refreshAll_start w =
     (\<lparr>current_promise = Pending, history_promise = Pending, all_promise = Pending\<rparr>,
      loadHistory_start (loadCurrent_start w))"

text \<open>The response to one of the two requests arrives and its loader resumes.\<close>

definition current_arrives ::
  "'n numops \<Rightarrow> (string \<Rightarrow> 'n jsval option) \<Rightarrow> fetch_result \<Rightarrow> refresh \<times> world \<Rightarrow> refresh \<times> world" where
  "current_arrives ops json res st =
     (case st of (rf, w) \<Rightarrow>
        (case loadCurrent_resume ops json res w of (r, w1) \<Rightarrow>
           (rf\<lparr>current_promise := promise_of r,
               all_promise := promise_all (all_promise rf) (promise_of r) (history_promise rf)\<rparr>,
            w1)))"

definition history_arrives ::
  "'n numops \<Rightarrow> (string \<Rightarrow> 'n jsval option) \<Rightarrow> fetch_result \<Rightarrow> refresh \<times> world \<Rightarrow> refresh \<times> world" where
  "history_arrives ops json res st =
     (case st of (rf, w) \<Rightarrow>
        (case loadHistory_resume ops json res w of (r, w1) \<Rightarrow>
           (rf\<lparr>history_promise := promise_of r,
               all_promise := promise_all (all_promise rf) (promise_of r) (current_promise rf)\<rparr>,
            w1)))"

text \<open>
  Calling a registered function as an event listener or a timer callback: it runs to
  its first \<open>await\<close>, and the promise it returns is dropped.
\<close>

fun run_handler :: "handler \<Rightarrow> world \<Rightarrow> world" where
  "run_handler CopyCSV w = copyCSV_start w"
| "run_handler RefreshAll w = snd (refreshAll_start w)"

text \<open>A click on the element \<open>i\<close> calls its click listeners in the order registered.\<close>

definition click :: "string \<Rightarrow> world \<Rightarrow> world" where
  "click i w =
     fold run_handler
       (map (\<lambda>l. snd (snd l)) (filter (\<lambda>l. fst l = i \<and> fst (snd l) = ''click'') (listeners w))) w"

text \<open>An interval of the page elapses: its function is called, and it stays set.\<close>

definition interval_elapses :: "handler \<times> nat \<Rightarrow> world \<Rightarrow> world" where
  "interval_elapses iv w = run_handler (fst iv) w"

text \<open>
  The top level of the script:
  \<^verbatim>\<open>
  document.getElementById("copyBtn").addEventListener("click", copyCSV);
  document.getElementById("refreshBtn").addEventListener("click", refreshAll);
  refreshAll();
  setInterval(refreshAll, 5 * 60 * 1000);
  \<close>
  A statement that throws ends the script.
\<close>

definition script :: "world \<Rightarrow> (js_error + unit) \<times> world" where
  "script w =
     (case addEventListener (getElementById ''copyBtn'' w) ''click'' CopyCSV w of
        Inl e \<Rightarrow> (Inl e, w)
      | Inr w1 \<Rightarrow>
          (case addEventListener (getElementById ''refreshBtn'' w1) ''click'' RefreshAll w1 of
             Inl e \<Rightarrow> (Inl e, w1)
           | Inr w2 \<Rightarrow>
               (let w3 = snd (refreshAll_start w2)
                in (Inr (), setInterval RefreshAll (5 * 60 * 1000) w3))))"

section \<open>Reading table markup back\<close>

text \<open>
  What the table body holds after \<open>tbody.innerHTML = markup\<close> is read off the markup by a
  small automaton over its characters: a row runs from \<open><tr>\<close> to \<open></tr>\<close>, a cell from
  \<open><td>\<close> to \<open></td>\<close>, a cell's content is the markup between its tags, and characters
  outside a cell belong to no cell. As in HTML, a row or a cell that is still open is
  closed by the next \<open><tr>\<close>, by the next \<open><td>\<close> or by the end of the markup.
\<close>

record reader =
  tag_name :: "string option"
  open_cell :: "string option"
  open_row :: "string list option"
  closed_rows :: "string list list"

definition reader_init :: reader where
  "reader_init = \<lparr>tag_name = None, open_cell = None, open_row = None, closed_rows = []\<rparr>"

definition close_cell :: "reader \<Rightarrow> reader" where
  "close_cell rd =
     (case open_cell rd of
        None \<Rightarrow> rd
      | Some c \<Rightarrow>
          rd\<lparr>open_cell := None,
             open_row := Some ((case open_row rd of None \<Rightarrow> [] | Some cs \<Rightarrow> cs) @ [c])\<rparr>)"

definition close_row :: "reader \<Rightarrow> reader" where
  "close_row rd =
     (let rd1 = close_cell rd
      in case open_row rd1 of
           None \<Rightarrow> rd1
         | Some cs \<Rightarrow> rd1\<lparr>open_row := None, closed_rows := closed_rows rd1 @ [cs]\<rparr>)"

definition on_tag :: "string \<Rightarrow> reader \<Rightarrow> reader" where
  "on_tag n rd =
     (if n = ''tr'' then (close_row rd)\<lparr>open_row := Some []\<rparr>
      else if n = ''/tr'' then close_row rd
      else if n = ''td'' then
        (let rd1 = close_cell rd
         in rd1\<lparr>open_cell := Some [],
                open_row := Some (case open_row rd1 of None \<Rightarrow> [] | Some cs \<Rightarrow> cs)\<rparr>)
      else if n = ''/td'' then close_cell rd
      else (case open_cell rd of
              None \<Rightarrow> rd
            | Some c \<Rightarrow> rd\<lparr>open_cell := Some (c @ ''<'' @ n @ ''>'')\<rparr>))"

definition read_char :: "char \<Rightarrow> reader \<Rightarrow> reader" where
  "read_char c rd =
     (case tag_name rd of
        Some n \<Rightarrow>
          (if c = CHR ''>'' then on_tag n (rd\<lparr>tag_name := None\<rparr>)
           else rd\<lparr>tag_name := Some (n @ [c])\<rparr>)
      | None \<Rightarrow>
          (if c = CHR ''<'' then rd\<lparr>tag_name := Some []\<rparr>
           else (case open_cell rd of
                   None \<Rightarrow> rd
                 | Some t \<Rightarrow> rd\<lparr>open_cell := Some (t @ [c])\<rparr>)))"

definition table_rows :: "string \<Rightarrow> string list list" where
  "table_rows markup = closed_rows (close_row (fold read_char markup reader_init))"

text \<open>
  The six fields of a history row in the order the specification fixes, and the text
  each cell of a row is to show: nothing for an absent or \<open>null\<close> field, the field's
  string otherwise.
\<close>

definition history_fields :: "string list" where
  "history_fields =
     [''timestamp_local'', ''temperature_F'', ''dry_bulb_F'', ''wet_bulb_F'',
      ''humidity_percent'', ''pressure_inHg'']"

definition field_text :: "'n numops \<Rightarrow> 'n jsval \<Rightarrow> string \<Rightarrow> js_error + string" where
  "field_text ops r k =
     bind_e (get_prop r k) (\<lambda>v. if nullish v then Inr [] else to_string ops v)"

definition row_texts :: "'n numops \<Rightarrow> 'n jsval \<Rightarrow> js_error + string list" where
  "row_texts ops r = sequence (map (field_text ops r) history_fields)"

text \<open>
  The markup the specification describes for one row: a \<open><tr>\<close> element holding one
  \<open><td>\<close> cell per text, in order, laid out as the template of \<open>loadHistory\<close> lays it out.
\<close>

definition row_markup :: "string list \<Rightarrow> string" where
  "row_markup ts =
     ''\<newline>    <tr>'' @ concat (map (\<lambda>t. ''\<newline>      '' @ ''<td>'' @ t @ ''</td>'') ts)
       @ ''\<newline>    </tr>'' @ ''\<newline>  ''"

section \<open>Example inputs\<close>

text \<open>
  Numbers that are natural numbers (JavaScript prints an integer below \<open>10^21\<close> in
  decimal, and only zero is falsy), a page that has the five elements the script looks
  up, and responses of the endpoints with the values their bodies parse to.
\<close>

definition nat_ops :: "nat numops" where
  "nat_ops = \<lparr>num_str = show_nat, num_falsy = (\<lambda>n. n = 0)\<rparr>"

definition page0 :: world where
  "page0 =
     \<lparr>elements =
        [''currentContent'' \<mapsto> InnerHTML [], ''stamp'' \<mapsto> TextContent [],
         ''histBody'' \<mapsto> InnerHTML [],
         ''copyBtn'' \<mapsto> TextContent ''Copy 48h CSV to Clipboard'',
         ''refreshBtn'' \<mapsto> TextContent ''Refresh''],
      listeners = [], clipboard = [], requests = [], timeouts = [], intervals = []\<rparr>"

definition current_response :: response where
  \<open>current_response =
     \<lparr>status = 200,
      body = ''{"dry_bulb_F":71,"wet_bulb_F":60,"humidity_percent":40,"pressure_inHg":30,''
           @ ''"timestamp_local":"2024-05-01 12:00","station":"KMPR"}''\<rparr>\<close>

definition sample_current :: "nat jsval" where
  "sample_current =
     JObj [(''dry_bulb_F'', JNum 71), (''wet_bulb_F'', JNum 60), (''humidity_percent'', JNum 40),
           (''pressure_inHg'', JNum 30), (''timestamp_local'', JStr ''2024-05-01 12:00''),
           (''station'', JStr ''KMPR'')]"

definition untimed_response :: response where
  \<open>untimed_response =
     \<lparr>status = 200,
      body = ''{"dry_bulb_F":71,"wet_bulb_F":60,"humidity_percent":40,"pressure_inHg":30,''
           @ ''"timestamp_local":"","station":"KMPR"}''\<rparr>\<close>

definition sample_untimed :: "nat jsval" where
  "sample_untimed =
     JObj [(''dry_bulb_F'', JNum 71), (''wet_bulb_F'', JNum 60), (''humidity_percent'', JNum 40),
           (''pressure_inHg'', JNum 30), (''timestamp_local'', JStr []),
           (''station'', JStr ''KMPR'')]"

definition unnamed_response :: response where
  \<open>unnamed_response =
     \<lparr>status = 200,
      body = ''{"dry_bulb_F":71,"wet_bulb_F":null,"humidity_percent":40,"pressure_inHg":30,''
           @ ''"timestamp_local":"2024-05-01 12:00","station":null}''\<rparr>\<close>

definition sample_unnamed :: "nat jsval" where
  "sample_unnamed =
     JObj [(''dry_bulb_F'', JNum 71), (''wet_bulb_F'', JNull), (''humidity_percent'', JNum 40),
           (''pressure_inHg'', JNum 30), (''timestamp_local'', JStr ''2024-05-01 12:00''),
           (''station'', JNull)]"

definition history_response :: response where
  \<open>history_response =
     \<lparr>status = 200,
      body = ''[{"timestamp_local":"2024-05-01 12:00","temperature_F":71,"dry_bulb_F":71,''
           @ ''"wet_bulb_F":null,"humidity_percent":40},''
           @ ''{"timestamp_local":"2024-05-01 12:05","temperature_F":72,"dry_bulb_F":72,''
           @ ''"wet_bulb_F":61,"humidity_percent":41,"pressure_inHg":30}]''\<rparr>\<close>

definition sample_history :: "nat jsval list" where
  "sample_history =
     [JObj [(''timestamp_local'', JStr ''2024-05-01 12:00''), (''temperature_F'', JNum 71),
            (''dry_bulb_F'', JNum 71), (''wet_bulb_F'', JNull), (''humidity_percent'', JNum 40)],
      JObj [(''timestamp_local'', JStr ''2024-05-01 12:05''), (''temperature_F'', JNum 72),
            (''dry_bulb_F'', JNum 72), (''wet_bulb_F'', JNum 61), (''humidity_percent'', JNum 41),
            (''pressure_inHg'', JNum 30)]]"

definition markup_response :: response where
  \<open>markup_response =
     \<lparr>status = 200, body = ''[{"timestamp_local":"</td></tr><tr><td>"}]''\<rparr>\<close>

definition sample_markup :: "nat jsval list" where
  "sample_markup = [JObj [(''timestamp_local'', JStr ''</td></tr><tr><td>'')]]"

definition csv_response :: response where
  "csv_response = \<lparr>status = 200, body = ''timestamp_local,temperature_F''\<rparr>"



definition failed_response :: response where
  "failed_response = \<lparr>status = 500, body = ''Internal Server Error''\<rparr>"

text \<open>What \<open>r.json()\<close> makes of these bodies.\<close>

definition sample_json :: "string \<Rightarrow> nat jsval option" where
  "sample_json =
     [body current_response \<mapsto> sample_current,
      body untimed_response \<mapsto> sample_untimed,
      body unnamed_response \<mapsto> sample_unnamed,
      body history_response \<mapsto> JArr sample_history,
      body markup_response \<mapsto> JArr sample_markup]"

section \<open>The fetch helper and the cell helper\<close>

declare show_nat.simps [simp del]

lemma digit_val_digit_char: "d < 10 \<Longrightarrow> digit_val (digit_char d) = d"
proof -
  assume "d < 10"
  then have "d \<in> {0, 1, 2, 3, 4, 5, 6, 7, 8, 9}" by auto
  then show ?thesis by (auto simp: digit_val_def digit_char_def)
qed

lemma read_nat_snoc: "read_nat (s @ [c]) = 10 * read_nat s + digit_val c"
  by (simp add: read_nat_def)

lemma read_show_nat: "read_nat (show_nat n) = n"
proof (induction n rule: show_nat.induct)
  case (1 n)
  show ?case
  proof (cases "n < 10")
    case True
    then show ?thesis
      by (subst show_nat.simps) (simp add: read_nat_def digit_val_digit_char)
  next
    case False
    then have "read_nat (show_nat (n div 10)) = n div 10" using 1 by simp
    with False show ?thesis
      by (subst show_nat.simps) (simp add: read_nat_snoc digit_val_digit_char)
  qed
qed

text \<open>
  C6: For every URL, \<open>getJSON\<close> issues the fetch with \<open>cache: "no-store"\<close>. When the fetch
  resolves with a response of status 200 to 299 it returns the parsed JSON body (or the
  rejection of \<open>r.json()\<close> where the body is not JSON and has no parsed form);
  otherwise it throws an error whose message is \<open>HTTP\<close> followed by the status code in
  decimal and returns no value. The message carries the status: reading the numeral
  back gives the status.
\<close>

theorem getJSON_contract:
  "getJSON json u (Inr r) w =
     (if 200 \<le> status r \<and> status r \<le> 299
      then (case json (body r) of None \<Rightarrow> Inl SyntaxError | Some v \<Rightarrow> Inr v)
      else Inl (Error (''HTTP '' @ show_nat (status r))),
      w\<lparr>requests := requests w @ [\<lparr>url = u, cache = NoStore\<rparr>]\<rparr>)
   \<and> read_nat (show_nat (status r)) = status r"
  by (simp add: getJSON_def getJSON_resume_def getJSON_start_def fetch_def ok_def read_show_nat)

text \<open>
  C9: For every value \<open>v\<close> other than \<open>null\<close> and \<open>undefined\<close>, \<open>cell(v)\<close> is
  \<open>"<td>" + String(v) + "</td>"\<close> (and throws where \<open>String(v)\<close> throws); nothing is
  escaped, so a string is inserted between the tags as it is, whatever characters it
  has. For \<open>null\<close> and \<open>undefined\<close> it is \<open>"<td></td>"\<close>.
\<close>

theorem cell_verbatim:
  "cell ops v =
     (if v = JNull \<or> v = JUndefined then Inr ''<td></td>''
      else (case to_string ops v of
              Inl e \<Rightarrow> Inl e
            | Inr s \<Rightarrow> Inr (''<td>'' @ s @ ''</td>'')))
   \<and> cell ops (JStr s) = Inr (''<td>'' @ s @ ''</td>'')"
  by (simp add: cell_def)

section \<open>The clipboard copy\<close>

lemmas copy_defs = copyCSV_def copyCSV_resume_def copyCSV_start_def fetch_def Let_def
  getElementById_def set_textContent_def setTimeout_def

text \<open>
  Decoding leaves well-formed UTF-8 as it is: each sequence of the table is read as one
  code point and written back in the same bytes.
\<close>

declare utf8_decode.simps [simp del]

lemma lead_two: "between 0xC2 0xDF a \<Longrightarrow> \<not> between 0x00 0x7F a \<and> lead a = Some (1, 0x80, 0xBF)"
  by (simp add: lead_def between_def)

lemma lead_three:
  assumes "between 0xE0 0xE0 a \<and> between 0xA0 0xBF b
           \<or> between 0xE1 0xEC a \<and> between 0x80 0xBF b
           \<or> between 0xED 0xED a \<and> between 0x80 0x9F b
           \<or> between 0xEE 0xEF a \<and> between 0x80 0xBF b"
  shows "\<not> between 0x00 0x7F a \<and> (\<exists>lo hi. lead a = Some (2, lo, hi) \<and> between lo hi b)"
  using assms by (auto simp add: lead_def between_def)

lemma lead_four:
  assumes "between 0xF0 0xF0 a \<and> between 0x90 0xBF b
           \<or> between 0xF1 0xF3 a \<and> between 0x80 0xBF b
           \<or> between 0xF4 0xF4 a \<and> between 0x80 0x8F b"
  shows "\<not> between 0x00 0x7F a \<and> (\<exists>lo hi. lead a = Some (3, lo, hi) \<and> between lo hi b)"
  using assms by (auto simp add: lead_def between_def)

lemma trail_zero [simp]: "trail 0 lo hi bs = []"
  by (cases bs) simp_all

lemma trail_one: "between lo hi b \<Longrightarrow> trail 1 lo hi (b # r) = [b]"
  by simp

lemma trail_two:
  "between lo hi b \<Longrightarrow> between 0x80 0xBF c \<Longrightarrow> trail 2 lo hi (b # c # r) = [b, c]"
  by (cases r) simp_all

lemma trail_three:
  "between lo hi b \<Longrightarrow> between 0x80 0xBF c \<Longrightarrow> between 0x80 0xBF d \<Longrightarrow>
     trail 3 lo hi (b # c # d # r) = [b, c, d]"
  by simp

lemma decode_ascii: "between 0x00 0x7F a \<Longrightarrow> utf8_decode (a # bs) = a # utf8_decode bs"
  by (simp add: utf8_decode.simps)

lemma decode_two:
  "between 0xC2 0xDF a \<Longrightarrow> between 0x80 0xBF b \<Longrightarrow>
     utf8_decode (a # b # r) = a # b # utf8_decode r"
  using lead_two [of a] by (simp add: utf8_decode.simps trail_one)

lemma decode_three:
  assumes "between 0xE0 0xE0 a \<and> between 0xA0 0xBF b
           \<or> between 0xE1 0xEC a \<and> between 0x80 0xBF b
           \<or> between 0xED 0xED a \<and> between 0x80 0x9F b
           \<or> between 0xEE 0xEF a \<and> between 0x80 0xBF b"
    and "between 0x80 0xBF c"
  shows "utf8_decode (a # b # c # r) = a # b # c # utf8_decode r"
proof -
  from lead_three [OF assms(1)] obtain lo hi where n: "\<not> between 0x00 0x7F a"
    and l: "lead a = Some (2, lo, hi)" and b: "between lo hi b" by blast
  have t: "trail 2 lo hi (b # c # r) = [b, c]" using b assms(2) by (rule trail_two)
  show ?thesis using n l t by (simp add: utf8_decode.simps)
qed

lemma decode_four:
  assumes "between 0xF0 0xF0 a \<and> between 0x90 0xBF b
           \<or> between 0xF1 0xF3 a \<and> between 0x80 0xBF b
           \<or> between 0xF4 0xF4 a \<and> between 0x80 0x8F b"
    and "between 0x80 0xBF c" and "between 0x80 0xBF d"
  shows "utf8_decode (a # b # c # d # r) = a # b # c # d # utf8_decode r"
proof -
  from lead_four [OF assms(1)] obtain lo hi where n: "\<not> between 0x00 0x7F a"
    and l: "lead a = Some (3, lo, hi)" and b: "between lo hi b" by blast
  have t: "trail 3 lo hi (b # c # d # r) = [b, c, d]" using b assms(2,3) by (rule trail_three)
  show ?thesis using n l t by (simp add: utf8_decode.simps)
qed

lemma decode_well_formed: "well_formed_utf8 bs \<Longrightarrow> utf8_decode bs = bs"
proof (induction bs rule: length_induct)
  case (1 bs)
  show ?case
  proof (cases bs)
    case Nil
    then show ?thesis by (simp add: utf8_decode.simps)
  next
    case (Cons a r)
    let ?two = "case r of
            b # r1 \<Rightarrow> between 0xC2 0xDF a \<and> between 0x80 0xBF b \<and> well_formed_utf8 r1
          | [] \<Rightarrow> False"
    let ?three = "case r of
            b # c # r2 \<Rightarrow>
              (between 0xE0 0xE0 a \<and> between 0xA0 0xBF b
               \<or> between 0xE1 0xEC a \<and> between 0x80 0xBF b
               \<or> between 0xED 0xED a \<and> between 0x80 0x9F b
               \<or> between 0xEE 0xEF a \<and> between 0x80 0xBF b)
              \<and> between 0x80 0xBF c \<and> well_formed_utf8 r2
          | _ \<Rightarrow> False"
    let ?four = "case r of
            b # c # d # r3 \<Rightarrow>
              (between 0xF0 0xF0 a \<and> between 0x90 0xBF b
               \<or> between 0xF1 0xF3 a \<and> between 0x80 0xBF b
               \<or> between 0xF4 0xF4 a \<and> between 0x80 0x8F b)
              \<and> between 0x80 0xBF c \<and> between 0x80 0xBF d \<and> well_formed_utf8 r3
          | _ \<Rightarrow> False"
    from "1.prems" Cons have "between 0x00 0x7F a \<and> well_formed_utf8 r \<or> ?two \<or> ?three \<or> ?four"
      by (simp only: well_formed_utf8.simps)
    then consider (one) "between 0x00 0x7F a \<and> well_formed_utf8 r" | (two) ?two
      | (three) ?three | (four) ?four
      by blast
    then show ?thesis
    proof cases
      case one
      then have "utf8_decode r = r" using "1.IH" Cons by simp
      with one Cons show ?thesis by (simp add: decode_ascii)
    next
      case two
      then obtain b r1 where r: "r = b # r1" and a: "between 0xC2 0xDF a"
        and b: "between 0x80 0xBF b" and w: "well_formed_utf8 r1"
        by (cases r) simp_all
      have "utf8_decode r1 = r1" using "1.IH" Cons r w by simp
      with a b r Cons show ?thesis by (simp add: decode_two)
    next
      case three
      then obtain b r' where r: "r = b # r'" by (cases r) simp_all
      with three obtain c r2 where r': "r' = c # r2" by (cases r') simp_all
      from three r r' have a: "between 0xE0 0xE0 a \<and> between 0xA0 0xBF b
               \<or> between 0xE1 0xEC a \<and> between 0x80 0xBF b
               \<or> between 0xED 0xED a \<and> between 0x80 0x9F b
               \<or> between 0xEE 0xEF a \<and> between 0x80 0xBF b"
        and c: "between 0x80 0xBF c" and w: "well_formed_utf8 r2"
        by simp_all
      have "utf8_decode r2 = r2" using "1.IH" Cons r r' w by simp
      with decode_three [OF a c, of r2] r r' Cons show ?thesis by simp
    next
      case four
      then obtain b r' where r: "r = b # r'" by (cases r) simp_all
      with four obtain c r'' where r': "r' = c # r''" by (cases r') simp_all
      with four r obtain d r3 where r'': "r'' = d # r3" by (cases r'') simp_all
      from four r r' r'' have a: "between 0xF0 0xF0 a \<and> between 0x90 0xBF b
               \<or> between 0xF1 0xF3 a \<and> between 0x80 0xBF b
               \<or> between 0xF4 0xF4 a \<and> between 0x80 0x8F b"
        and c: "between 0x80 0xBF c" and d: "between 0x80 0xBF d" and w: "well_formed_utf8 r3"
        by simp_all
      have "utf8_decode r3 = r3" using "1.IH" Cons r r' r'' w by simp
      with decode_four [OF a c d, of r3] r r' r'' Cons show ?thesis by simp
    qed
  qed
qed

lemma well_formed_after_bom:
  assumes "well_formed_utf8 bs" and "take 3 bs = [CHR 0xEF, CHR 0xBB, CHR 0xBF]"
  shows "well_formed_utf8 (drop 3 bs)"
proof -
  have "bs = take 3 bs @ drop 3 bs" by simp
  with assms(2) have "bs = CHR 0xEF # CHR 0xBB # CHR 0xBF # drop 3 bs" by simp
  with assms(1) have "well_formed_utf8 (CHR 0xEF # CHR 0xBB # CHR 0xBF # drop 3 bs)" by simp
  then show ?thesis by (simp add: between_def byte_def split: list.splits)
qed

lemma response_text_well_formed:
  assumes "well_formed_utf8 (body r)"
  shows "response_text r =
           (if take 3 (body r) = [CHR 0xEF, CHR 0xBB, CHR 0xBF] then drop 3 (body r) else body r)"
proof (cases "take 3 (body r) = [CHR 0xEF, CHR 0xBB, CHR 0xBF]")
  case True
  with assms have "well_formed_utf8 (drop 3 (body r))" by (rule well_formed_after_bom)
  with True show ?thesis by (simp add: response_text_def bom_def decode_well_formed)
next
  case False
  with assms show ?thesis by (simp add: response_text_def bom_def decode_well_formed)
qed

lemma response_text_failed: "response_text failed_response = ''Internal Server Error''"
proof -
  have "well_formed_utf8 (body failed_response)"
    by (simp add: failed_response_def between_def byte_def)
  from response_text_well_formed [OF this] show ?thesis by (simp add: failed_response_def)
qed

lemma response_text_csv: "response_text csv_response = ''timestamp_local,temperature_F''"
proof -
  have "well_formed_utf8 (body csv_response)"
    by (simp add: csv_response_def between_def byte_def)
  from response_text_well_formed [OF this] show ?thesis by (simp add: csv_response_def)
qed




text \<open>
  The two loaders that go through \<open>getJSON\<close> reject with the status on a response that is
  not 2xx, having issued their request and touched no element.
\<close>

lemma loaders_reject_non_2xx:
  assumes "\<not> ok r"
  shows "loadCurrent ops json (Inr r) w =
           (Inl (Error (''HTTP '' @ show_nat (status r))), loadCurrent_start w)"
    and "loadHistory ops json (Inr r) w =
           (Inl (Error (''HTTP '' @ show_nat (status r))), loadHistory_start w)"
    and "elements (loadCurrent_start w) = elements w"
    and "elements (loadHistory_start w) = elements w"
  using assms
  by (simp_all add: loadCurrent_def loadCurrent_resume_def loadHistory_def loadHistory_resume_def
      getJSON_resume_def loadCurrent_start_def loadHistory_start_def getJSON_start_def fetch_def)

text \<open>
  C1: A response that is not 2xx makes the loader throw with the status and leaves the
  page and the clipboard alone. \<open>copyCSV\<close> does not do so: it never looks at \<open>r.ok\<close>. On a
  response of status 500 it fulfils, writes the body of the error response to the
  clipboard, sets the button's label to \<open>Copied!\<close> and sets the timer.
\<close>

theorem copyCSV_ignores_status:
  "copyCSV True (Inr failed_response) page0 =
     (Inr (),
      page0\<lparr>elements := (elements page0)(''copyBtn'' \<mapsto> TextContent ''Copied!''),
            clipboard := [''Internal Server Error''],
            requests := [\<lparr>url = ''/api/history.csv'', cache = NoStore\<rparr>],
            timeouts := [(SetTextContent ''copyBtn'' ''Copy 48h CSV to Clipboard'', 1200)]\<rparr>)
   \<and> status failed_response = 500 \<and> \<not> ok failed_response"
proof -
  have "copyCSV True (Inr failed_response) page0 =
     (Inr (),
      page0\<lparr>elements := (elements page0)(''copyBtn'' \<mapsto> TextContent ''Copied!''),
            clipboard := [response_text failed_response],
            requests := [\<lparr>url = ''/api/history.csv'', cache = NoStore\<rparr>],
            timeouts := [(SetTextContent ''copyBtn'' ''Copy 48h CSV to Clipboard'', 1200)]\<rparr>)"
    by (simp add: copy_defs page0_def)
  then have run: "copyCSV True (Inr failed_response) page0 =
     (Inr (),
      page0\<lparr>elements := (elements page0)(''copyBtn'' \<mapsto> TextContent ''Copied!''),
            clipboard := [''Internal Server Error''],
            requests := [\<lparr>url = ''/api/history.csv'', cache = NoStore\<rparr>],
            timeouts := [(SetTextContent ''copyBtn'' ''Copy 48h CSV to Clipboard'', 1200)]\<rparr>)"
    by (simp only: response_text_failed)
  have "status failed_response = 500 \<and> \<not> ok failed_response"
    by (simp add: failed_response_def ok_def)
  with run show ?thesis by blast
qed

text \<open>
  C3: When \<open>copyCSV\<close> has written to the clipboard and the button exists, the button's
  label is \<open>Copied!\<close> and a timer of 1200 ms is pending whose callback sets the label to
  the fixed text \<open>Copy 48h CSV to Clipboard\<close>, whatever the label was before and in
  whatever state of the page the callback runs; with no other timer pending, the label
  is that fixed text once the timer has fired.
\<close>

theorem copyCSV_label:
  assumes "elements w ''copyBtn'' = Some c"
  shows "fst (copyCSV True (Inr r) w) = Inr ()
       \<and> elements (snd (copyCSV True (Inr r) w)) ''copyBtn'' = Some (TextContent ''Copied!'')
       \<and> timeouts (snd (copyCSV True (Inr r) w)) =
           timeouts w @ [(SetTextContent ''copyBtn'' ''Copy 48h CSV to Clipboard'', 1200)]
       \<and> elements (run_callback (SetTextContent ''copyBtn'' ''Copy 48h CSV to Clipboard'') v)
             ''copyBtn''
           = Some (TextContent ''Copy 48h CSV to Clipboard'')
       \<and> (timeouts w = [] \<longrightarrow>
            elements (fire_timeout (snd (copyCSV True (Inr r) w))) ''copyBtn''
              = Some (TextContent ''Copy 48h CSV to Clipboard''))"
  using assms by (simp add: copy_defs fire_timeout_def)

theorem copyCSV_label_witness:
  "elements page0 ''copyBtn'' = Some (TextContent ''Copy 48h CSV to Clipboard'')
   \<and> elements (snd (copyCSV True (Inr csv_response) page0)) ''copyBtn''
        = Some (TextContent ''Copied!'')
   \<and> elements (fire_timeout (snd (copyCSV True (Inr csv_response) page0))) ''copyBtn''
        = Some (TextContent ''Copy 48h CSV to Clipboard'')"
proof -
  have h: "elements page0 ''copyBtn'' = Some (TextContent ''Copy 48h CSV to Clipboard'')"
    by (simp add: page0_def)
  have t: "timeouts page0 = []" by (simp add: page0_def)
  show ?thesis
    using copyCSV_label [OF h, of csv_response page0] h t by simp
qed

text \<open>
  The label does not revert to what it was before the invocation: a second click while
  the label still reads \<open>Copied!\<close> ends, after both timers have fired, with the fixed text
  and not with \<open>Copied!\<close>; and a button that read \<open>Copy CSV\<close> reads the fixed text after
  the timer.
\<close>

theorem copyCSV_label_counterexample:
  "elements (snd (copyCSV True (Inr csv_response) page0)) ''copyBtn''
      = Some (TextContent ''Copied!'')
   \<and> elements
        (fire_timeout (fire_timeout
          (snd (copyCSV True (Inr csv_response)
            (snd (copyCSV True (Inr csv_response) page0)))))) ''copyBtn''
      = Some (TextContent ''Copy 48h CSV to Clipboard'')
   \<and> timeouts
        (fire_timeout (fire_timeout
          (snd (copyCSV True (Inr csv_response)
            (snd (copyCSV True (Inr csv_response) page0)))))) = []
   \<and> TextContent ''Copy 48h CSV to Clipboard'' \<noteq> TextContent ''Copied!''
   \<and> elements
        (fire_timeout
          (snd (copyCSV True (Inr csv_response)
            (page0\<lparr>elements := (elements page0)(''copyBtn'' \<mapsto> TextContent ''Copy CSV'')\<rparr>))))
        ''copyBtn''
      = Some (TextContent ''Copy 48h CSV to Clipboard'')
   \<and> TextContent ''Copy 48h CSV to Clipboard'' \<noteq> TextContent ''Copy CSV''"
  by (simp add: copy_defs fire_timeout_def page0_def csv_response_def)

section \<open>The current reading\<close>

lemmas load_defs = loadCurrent_def loadCurrent_resume_def loadCurrent_start_def getJSON_resume_def
  getJSON_start_def fetch_def Let_def getElementById_def set_innerHTML_def set_textContent_def

lemma subst_or_empty_present:
  "get_prop data k = Inr v \<Longrightarrow> \<not> nullish v \<Longrightarrow> subst_or_empty ops data k = to_string ops v"
  by (simp add: subst_or_empty_def bind_e_def nullish_or_def)

lemma loadCurrent_panel:
  assumes "ok r" and "json (body r) = Some data" and "current_panel ops data = Inr html"
    and "elements w ''currentContent'' = Some c"
  shows "elements (snd (loadCurrent ops json (Inr r) w)) ''currentContent'' = Some (InnerHTML html)"
  using assms by (simp add: load_defs bind_e_def split: sum.splits option.splits)

lemma sample_json_current: "sample_json (body current_response) = Some sample_current"
  by (simp add: sample_json_def current_response_def untimed_response_def unnamed_response_def
      history_response_def markup_response_def)

lemma sample_json_untimed: "sample_json (body untimed_response) = Some sample_untimed"
  by (simp add: sample_json_def current_response_def untimed_response_def unnamed_response_def
      history_response_def markup_response_def)

lemma sample_json_unnamed: "sample_json (body unnamed_response) = Some sample_unnamed"
  by (simp add: sample_json_def current_response_def untimed_response_def unnamed_response_def
      history_response_def markup_response_def)

lemma sample_json_history: "sample_json (body history_response) = Some (JArr sample_history)"
  by (simp add: sample_json_def current_response_def untimed_response_def unnamed_response_def
      history_response_def markup_response_def)

lemma sample_json_markup: "sample_json (body markup_response) = Some (JArr sample_markup)"
  by (simp add: sample_json_def current_response_def untimed_response_def unnamed_response_def
      history_response_def markup_response_def)

lemma sample_responses_ok:
  "ok current_response" "ok untimed_response" "ok unnamed_response" "ok history_response"
  "ok markup_response"
  by (simp_all add: ok_def current_response_def untimed_response_def unnamed_response_def
      history_response_def markup_response_def)

text \<open>
  C5: For every current-reading response whose four values are present (not \<open>null\<close>),
  the panel that \<open>loadCurrent\<close> renders holds each value followed by its unit: the dry
  bulb and the wet bulb by the degree sign (the bytes C2 B0 of its UTF-8 encoding) and
  \<open>F\<close>, the humidity by \<open>%\<close>, the pressure by \<open>inHg\<close> (a space stands between the value and
  the unit).
\<close>

theorem current_panel_units:
  assumes "ok r" and "json (body r) = Some data"
    and "elements w ''currentContent'' = Some c"
    and "get_prop data ''dry_bulb_F'' = Inr dry" and "\<not> nullish dry"
    and "to_string ops dry = Inr sd"
    and "get_prop data ''wet_bulb_F'' = Inr wet" and "\<not> nullish wet"
    and "to_string ops wet = Inr sw"
    and "get_prop data ''humidity_percent'' = Inr hum" and "\<not> nullish hum"
    and "to_string ops hum = Inr sh"
    and "get_prop data ''pressure_inHg'' = Inr pres" and "\<not> nullish pres"
    and "to_string ops pres = Inr sp"
  shows \<open>elements (snd (loadCurrent ops json (Inr r) w)) ''currentContent'' =
     Some (InnerHTML
       (''\<newline>    <div><span class="label">Temperature (dry bulb)</span><span class="val">''
            @ sd @ '' '' @ [CHR 0xC2, CHR 0xB0] @ ''F</span></div>''
          @ ''\<newline>    <div><span class="label">Wet bulb</span><span class="val">''
            @ sw @ '' '' @ [CHR 0xC2, CHR 0xB0] @ ''F</span></div>''
          @ ''\<newline>    <div><span class="label">Humidity</span><span class="val">''
            @ sh @ '' %</span></div>''
          @ ''\<newline>    <div><span class="label">Pressure</span><span class="val">''
            @ sp @ '' inHg</span></div>''
          @ ''\<newline>  ''))\<close>
proof -
  have \<open>current_panel ops data = Inr
       (''\<newline>    <div><span class="label">Temperature (dry bulb)</span><span class="val">''
            @ sd @ '' '' @ [CHR 0xC2, CHR 0xB0] @ ''F</span></div>''
          @ ''\<newline>    <div><span class="label">Wet bulb</span><span class="val">''
            @ sw @ '' '' @ [CHR 0xC2, CHR 0xB0] @ ''F</span></div>''
          @ ''\<newline>    <div><span class="label">Humidity</span><span class="val">''
            @ sh @ '' %</span></div>''
          @ ''\<newline>    <div><span class="label">Pressure</span><span class="val">''
            @ sp @ '' inHg</span></div>''
          @ ''\<newline>  '')\<close>
    using assms by (simp add: current_panel_def subst_or_empty_present bind_e_def degree_def)
  then show ?thesis using assms(1-3) by (simp add: loadCurrent_panel)
qed

theorem current_panel_units_witness:
  \<open>elements (snd (loadCurrent nat_ops sample_json (Inr current_response) page0))
      ''currentContent'' =
     Some (InnerHTML
       (''\<newline>    <div><span class="label">Temperature (dry bulb)</span><span class="val">''
            @ ''71'' @ '' '' @ [CHR 0xC2, CHR 0xB0] @ ''F</span></div>''
          @ ''\<newline>    <div><span class="label">Wet bulb</span><span class="val">''
            @ ''60'' @ '' '' @ [CHR 0xC2, CHR 0xB0] @ ''F</span></div>''
          @ ''\<newline>    <div><span class="label">Humidity</span><span class="val">''
            @ ''40'' @ '' %</span></div>''
          @ ''\<newline>    <div><span class="label">Pressure</span><span class="val">''
            @ ''30'' @ '' inHg</span></div>''
          @ ''\<newline>  ''))\<close>
proof -
  have e: "elements page0 ''currentContent'' = Some (InnerHTML [])" by (simp add: page0_def)
  have d: "get_prop sample_current ''dry_bulb_F'' = Inr (JNum 71)" "\<not> nullish (JNum 71 :: nat jsval)"
    "to_string nat_ops (JNum 71) = Inr ''71''"
    by (simp_all add: sample_current_def nat_ops_def show_nat.simps digit_char_def)
  have w: "get_prop sample_current ''wet_bulb_F'' = Inr (JNum 60)" "\<not> nullish (JNum 60 :: nat jsval)"
    "to_string nat_ops (JNum 60) = Inr ''60''"
    by (simp_all add: sample_current_def nat_ops_def show_nat.simps digit_char_def)
  have h: "get_prop sample_current ''humidity_percent'' = Inr (JNum 40)"
    "\<not> nullish (JNum 40 :: nat jsval)" "to_string nat_ops (JNum 40) = Inr ''40''"
    by (simp_all add: sample_current_def nat_ops_def show_nat.simps digit_char_def)
  have p: "get_prop sample_current ''pressure_inHg'' = Inr (JNum 30)"
    "\<not> nullish (JNum 30 :: nat jsval)" "to_string nat_ops (JNum 30) = Inr ''30''"
    by (simp_all add: sample_current_def nat_ops_def show_nat.simps digit_char_def)
  show ?thesis
    by (rule current_panel_units [where json = sample_json and r = current_response
          and data = sample_current, OF sample_responses_ok(1) sample_json_current e d w h p])
qed

text \<open>
  C10: \<open>loadCurrent\<close> shows the station only when \<open>timestamp_local\<close> is truthy. Where
  \<open>timestamp_local\<close> is \<open>null\<close>, absent or any other falsy value, the stamp is set to the
  empty string whatever the station is; where it is truthy, the stamp is
  \<open>As of <timestamp_local> (<station>)\<close>.
\<close>

theorem stamp_gate:
  assumes "ok r" and "json (body r) = Some data"
    and "current_panel ops data = Inr html"
    and "elements w ''currentContent'' = Some c1" and "elements w ''stamp'' = Some c2"
    and "get_prop data ''timestamp_local'' = Inr ts"
  shows "(\<not> truthy ops ts \<longrightarrow>
            elements (snd (loadCurrent ops json (Inr r) w)) ''stamp'' = Some (TextContent []))
       \<and> (truthy ops ts \<longrightarrow>
            (\<forall>st t s. get_prop data ''station'' = Inr st \<longrightarrow> to_string ops ts = Inr t \<longrightarrow>
               to_string ops st = Inr s \<longrightarrow>
               elements (snd (loadCurrent ops json (Inr r) w)) ''stamp''
                 = Some (TextContent (''As of '' @ t @ '' ('' @ s @ '')''))))"
  using assms
  by (simp add: load_defs bind_e_def stamp_text_def subst_def split: sum.splits option.splits)

theorem stamp_gate_witness:
  "elements (snd (loadCurrent nat_ops sample_json (Inr current_response) page0)) ''stamp''
     = Some (TextContent ''As of 2024-05-01 12:00 (KMPR)'')
   \<and> get_prop sample_untimed ''timestamp_local'' = Inr (JStr [])
   \<and> get_prop sample_untimed ''station'' = Inr (JStr ''KMPR'')
   \<and> elements (snd (loadCurrent nat_ops sample_json (Inr untimed_response) page0)) ''stamp''
     = Some (TextContent [])"
proof -
  have p1: "current_panel nat_ops sample_current =
      Inr (case current_panel nat_ops sample_current of Inr h \<Rightarrow> h | Inl e \<Rightarrow> [])"
    by (simp add: sample_current_def current_panel_def subst_or_empty_def bind_e_def nullish_or_def)
  have p2: "current_panel nat_ops sample_untimed =
      Inr (case current_panel nat_ops sample_untimed of Inr h \<Rightarrow> h | Inl e \<Rightarrow> [])"
    by (simp add: sample_untimed_def current_panel_def subst_or_empty_def bind_e_def nullish_or_def)
  have e1: "elements page0 ''currentContent'' = Some (InnerHTML [])" by (simp add: page0_def)
  have e2: "elements page0 ''stamp'' = Some (TextContent [])" by (simp add: page0_def)
  have t1: "get_prop sample_current ''timestamp_local'' = Inr (JStr ''2024-05-01 12:00'')"
    by (simp add: sample_current_def)
  have s1: "get_prop sample_current ''station'' = Inr (JStr ''KMPR'')"
    by (simp add: sample_current_def)
  have t2: "get_prop sample_untimed ''timestamp_local'' = Inr (JStr [])"
    by (simp add: sample_untimed_def)
  have s2: "get_prop sample_untimed ''station'' = Inr (JStr ''KMPR'')"
    by (simp add: sample_untimed_def)
  from stamp_gate [where json = sample_json and r = current_response and data = sample_current,
      OF sample_responses_ok(1) sample_json_current p1 e1 e2 t1] s1
  have a: "elements (snd (loadCurrent nat_ops sample_json (Inr current_response) page0)) ''stamp''
     = Some (TextContent ''As of 2024-05-01 12:00 (KMPR)'')"
    by simp
  from stamp_gate [where json = sample_json and r = untimed_response and data = sample_untimed,
      OF sample_responses_ok(2) sample_json_untimed p2 e1 e2 t2]
  have b: "elements (snd (loadCurrent nat_ops sample_json (Inr untimed_response) page0)) ''stamp''
     = Some (TextContent [])"
    by simp
  from a b t2 s2 show ?thesis by simp
qed

text \<open>
  C2: A field that is \<open>null\<close> or absent is rendered as the empty string, never as the
  text \<open>null\<close> or \<open>undefined\<close>. The four values of the panel are (the wet bulb below), but
  the station is not: with a timestamp and a station that is \<open>null\<close>, the stamp reads
  \<open>As of 2024-05-01 12:00 (null)\<close>.
\<close>

theorem station_null_rendered:
  \<open>get_prop sample_unnamed ''station'' = Inr JNull
   \<and> get_prop sample_unnamed ''wet_bulb_F'' = Inr JNull
   \<and> elements (snd (loadCurrent nat_ops sample_json (Inr unnamed_response) page0)) ''stamp''
       = Some (TextContent ''As of 2024-05-01 12:00 (null)'')
   \<and> elements (snd (loadCurrent nat_ops sample_json (Inr unnamed_response) page0))
        ''currentContent'' =
     Some (InnerHTML
       (''\<newline>    <div><span class="label">Temperature (dry bulb)</span><span class="val">''
            @ ''71'' @ '' '' @ degree @ ''F</span></div>''
          @ ''\<newline>    <div><span class="label">Wet bulb</span><span class="val">''
            @ [] @ '' '' @ degree @ ''F</span></div>''
          @ ''\<newline>    <div><span class="label">Humidity</span><span class="val">''
            @ ''40'' @ '' %</span></div>''
          @ ''\<newline>    <div><span class="label">Pressure</span><span class="val">''
            @ ''30'' @ '' inHg</span></div>''
          @ ''\<newline>  ''))\<close>
  by (simp add: load_defs sample_responses_ok sample_json_unnamed sample_unnamed_def
      current_panel_def stamp_text_def subst_def subst_or_empty_def bind_e_def nullish_or_def
      nat_ops_def page0_def show_nat.simps digit_char_def)

section \<open>The history table\<close>

text \<open>
  The reader on the pieces of the markup: text outside a cell, text inside a cell, a
  tag, a cell, the cells of a row, a row, the rows.
\<close>

lemma read_outside:
  "tag_name rd = None \<Longrightarrow> open_cell rd = None \<Longrightarrow> CHR ''<'' \<notin> set t \<Longrightarrow> fold read_char t rd = rd"
  by (induction t arbitrary: rd) (auto simp add: read_char_def)

lemma read_inside:
  "tag_name rd = None \<Longrightarrow> open_cell rd = Some c \<Longrightarrow> CHR ''<'' \<notin> set t \<Longrightarrow>
     fold read_char t rd = rd\<lparr>open_cell := Some (c @ t)\<rparr>"
proof (induction t arbitrary: rd c)
  case Nil
  then show ?case by simp
next
  case (Cons x t)
  have "fold read_char (x # t) rd = fold read_char t (rd\<lparr>open_cell := Some (c @ [x])\<rparr>)"
    using Cons.prems by (auto simp add: read_char_def)
  also have "\<dots> = rd\<lparr>open_cell := Some (c @ [x]), open_cell := Some ((c @ [x]) @ t)\<rparr>"
    using Cons.prems by (subst Cons.IH [where c = "c @ [x]"]) simp_all
  finally show ?case by simp
qed

lemma read_name:
  "tag_name rd = Some m \<Longrightarrow> CHR ''>'' \<notin> set n \<Longrightarrow>
     fold read_char n rd = rd\<lparr>tag_name := Some (m @ n)\<rparr>"
proof (induction n arbitrary: rd m)
  case Nil
  then show ?case by simp
next
  case (Cons x n)
  have "fold read_char (x # n) rd = fold read_char n (rd\<lparr>tag_name := Some (m @ [x])\<rparr>)"
    using Cons.prems by (auto simp add: read_char_def)
  also have "\<dots> = rd\<lparr>tag_name := Some (m @ [x]), tag_name := Some ((m @ [x]) @ n)\<rparr>"
    using Cons.prems by (subst Cons.IH [where m = "m @ [x]"]) simp_all
  finally show ?case by simp
qed

lemma read_tag:
  assumes "tag_name rd = None" and "CHR ''>'' \<notin> set n"
  shows "fold read_char (CHR ''<'' # n @ ''>'') rd = on_tag n rd"
proof -
  have "fold read_char (CHR ''<'' # n @ ''>'') rd
        = read_char CHR ''>'' (fold read_char n (rd\<lparr>tag_name := Some []\<rparr>))"
    using assms by (simp add: read_char_def)
  also have "fold read_char n (rd\<lparr>tag_name := Some []\<rparr>) = rd\<lparr>tag_name := Some n\<rparr>"
    using assms(2) by (subst read_name [where m = "[]"]) simp_all
  also have "read_char CHR ''>'' (rd\<lparr>tag_name := Some n\<rparr>) = on_tag n (rd\<lparr>tag_name := None\<rparr>)"
    by (simp add: read_char_def)
  also have "rd\<lparr>tag_name := None\<rparr> = rd" using assms(1) by simp
  finally show ?thesis .
qed

lemma read_cell:
  assumes "tag_name rd = None" and "open_cell rd = None" and "open_row rd = Some cs"
    and "CHR ''<'' \<notin> set t"
  shows "fold read_char (''\<newline>      '' @ ''<td>'' @ t @ ''</td>'') rd = rd\<lparr>open_row := Some (cs @ [t])\<rparr>"
proof -
  let ?rd1 = "rd\<lparr>open_cell := Some []\<rparr>"
  have a: "fold read_char ''\<newline>      '' rd = rd"
    using assms by (intro read_outside) simp_all
  have b: "fold read_char ''<td>'' rd = ?rd1"
    using read_tag [of rd "''td''"] assms by (simp add: on_tag_def close_cell_def)
  have c: "fold read_char t ?rd1 = rd\<lparr>open_cell := Some t\<rparr>"
    using assms by (subst read_inside [where c = "[]"]) simp_all
  have d: "fold read_char ''</td>'' (rd\<lparr>open_cell := Some t\<rparr>) = rd\<lparr>open_row := Some (cs @ [t])\<rparr>"
    using read_tag [of "rd\<lparr>open_cell := Some t\<rparr>" "''/td''"] assms
    by (simp add: on_tag_def close_cell_def)
  show ?thesis
    by (simp only: fold_append o_apply a b c d)
qed

lemma read_cells:
  assumes "tag_name rd = None" and "open_cell rd = None" and "open_row rd = Some cs"
    and "\<forall>t\<in>set ts. CHR ''<'' \<notin> set t"
  shows "fold read_char (concat (map (\<lambda>t. ''\<newline>      '' @ ''<td>'' @ t @ ''</td>'') ts)) rd
         = rd\<lparr>open_row := Some (cs @ ts)\<rparr>"
  using assms
proof (induction ts arbitrary: rd cs)
  case Nil
  then show ?case by simp
next
  case (Cons t ts)
  let ?rd1 = "rd\<lparr>open_row := Some (cs @ [t])\<rparr>"
  have "fold read_char (concat (map (\<lambda>t. ''\<newline>      '' @ ''<td>'' @ t @ ''</td>'') (t # ts))) rd
        = fold read_char (concat (map (\<lambda>t. ''\<newline>      '' @ ''<td>'' @ t @ ''</td>'') ts))
            (fold read_char (''\<newline>      '' @ ''<td>'' @ t @ ''</td>'') rd)"
    by (simp only: list.map concat.simps fold_append o_apply)
  also have "fold read_char (''\<newline>      '' @ ''<td>'' @ t @ ''</td>'') rd = ?rd1"
    using Cons.prems by (intro read_cell) simp_all
  also have "fold read_char (concat (map (\<lambda>t. ''\<newline>      '' @ ''<td>'' @ t @ ''</td>'') ts)) ?rd1
        = ?rd1\<lparr>open_row := Some ((cs @ [t]) @ ts)\<rparr>"
    using Cons.prems by (intro Cons.IH) simp_all
  finally show ?case by simp
qed

lemma read_row:
  assumes "tag_name rd = None" and "open_cell rd = None" and "open_row rd = None"
    and "\<forall>t\<in>set ts. CHR ''<'' \<notin> set t"
  shows "fold read_char (row_markup ts) rd = rd\<lparr>closed_rows := closed_rows rd @ [ts]\<rparr>"
proof -
  let ?rd1 = "rd\<lparr>open_row := Some []\<rparr>"
  let ?rd2 = "rd\<lparr>open_row := Some ts\<rparr>"
  let ?rd3 = "rd\<lparr>closed_rows := closed_rows rd @ [ts]\<rparr>"
  have a: "fold read_char ''\<newline>    '' rd = rd"
    using assms by (intro read_outside) simp_all
  have b: "fold read_char ''<tr>'' rd = ?rd1"
    using read_tag [of rd "''tr''"] assms by (simp add: on_tag_def close_row_def close_cell_def)
  have c: "fold read_char (concat (map (\<lambda>t. ''\<newline>      '' @ ''<td>'' @ t @ ''</td>'') ts)) ?rd1 = ?rd2"
    using assms by (subst read_cells [where cs = "[]"]) simp_all
  have d: "fold read_char ''\<newline>    '' ?rd2 = ?rd2"
    using assms by (intro read_outside) simp_all
  have e: "fold read_char ''</tr>'' ?rd2 = ?rd3"
    using read_tag [of ?rd2 "''/tr''"] assms by (simp add: on_tag_def close_row_def close_cell_def)
  have f: "fold read_char ''\<newline>  '' ?rd3 = ?rd3"
    using assms by (intro read_outside) simp_all
  have split: "row_markup ts = ''\<newline>    '' @ ''<tr>'' @ concat (map (\<lambda>t. ''\<newline>      '' @ ''<td>'' @ t @ ''</td>'') ts)
       @ ''\<newline>    '' @ ''</tr>'' @ ''\<newline>  ''"
    by (simp add: row_markup_def)
  show ?thesis
    by (simp only: split fold_append o_apply a b c d e f)
qed

lemma read_rows:
  assumes "tag_name rd = None" and "open_cell rd = None" and "open_row rd = None"
    and "\<forall>ts\<in>set tss. \<forall>t\<in>set ts. CHR ''<'' \<notin> set t"
  shows "fold read_char (concat (map row_markup tss)) rd = rd\<lparr>closed_rows := closed_rows rd @ tss\<rparr>"
  using assms
proof (induction tss arbitrary: rd)
  case Nil
  then show ?case by simp
next
  case (Cons ts tss)
  let ?rd1 = "rd\<lparr>closed_rows := closed_rows rd @ [ts]\<rparr>"
  have "fold read_char (concat (map row_markup (ts # tss))) rd
        = fold read_char (concat (map row_markup tss)) (fold read_char (row_markup ts) rd)"
    by simp
  also have "fold read_char (row_markup ts) rd = ?rd1"
    using Cons.prems by (intro read_row) simp_all
  also have "fold read_char (concat (map row_markup tss)) ?rd1
        = ?rd1\<lparr>closed_rows := closed_rows ?rd1 @ tss\<rparr>"
    using Cons.prems by (intro Cons.IH) simp_all
  finally show ?case by simp
qed

lemma table_rows_markup:
  assumes "\<forall>ts\<in>set tss. \<forall>t\<in>set ts. CHR ''<'' \<notin> set t"
  shows "table_rows (concat (map row_markup tss)) = tss"
  using read_rows [of reader_init tss] assms
  by (simp add: table_rows_def reader_init_def close_row_def close_cell_def)

text \<open>The template of \<open>loadHistory\<close> writes the row markup of the six field texts.\<close>

lemma join_empty: "join [] ss = concat ss"
  by (induction "[]::string" ss rule: join.induct) simp_all

lemma nullish_iff: "nullish v \<longleftrightarrow> v = JNull \<or> v = JUndefined"
  by (cases v) simp_all

lemma cell_of_field_text:
  "cell_of ops r k = bind_e (field_text ops r k) (\<lambda>t. Inr (''<td>'' @ t @ ''</td>''))"
  by (simp add: cell_of_def field_text_def bind_e_def cell_def nullish_iff split: sum.splits)

lemma history_row_markup:
  "history_row ops r = bind_e (row_texts ops r) (\<lambda>ts. Inr (row_markup ts))"
  by (simp add: history_row_def row_texts_def history_fields_def cell_of_field_text bind_e_def
      row_markup_def split: sum.splits)

lemma sequence_Inr_nth:
  "sequence (map f xs) = Inr ys \<Longrightarrow>
     length ys = length xs \<and> (\<forall>i<length xs. f (xs ! i) = Inr (ys ! i))"
proof (induction xs arbitrary: ys)
  case Nil
  then show ?case by simp
next
  case (Cons x xs)
  from Cons.prems obtain y ys' where fx: "f x = Inr y" and rest: "sequence (map f xs) = Inr ys'"
    and ys: "ys = y # ys'"
    by (cases "f x"; cases "sequence (map f xs)") auto
  from Cons.IH [OF rest] have len: "length ys' = length xs"
    and nth: "\<forall>i<length xs. f (xs ! i) = Inr (ys' ! i)" by simp_all
  show ?case
  proof (intro conjI allI impI)
    show "length ys = length (x # xs)" using ys len by simp
  next
    fix i assume "i < length (x # xs)"
    then show "f ((x # xs) ! i) = Inr (ys ! i)"
      using fx nth ys by (cases i) simp_all
  qed
qed

lemma sequence_rows_markup:
  "sequence (map (row_texts ops) rs) = Inr tss \<Longrightarrow>
     sequence (map (history_row ops) rs) = Inr (map row_markup tss)"
proof (induction rs arbitrary: tss)
  case Nil
  then show ?case by simp
next
  case (Cons r rs)
  from Cons.prems obtain ts tss' where a: "row_texts ops r = Inr ts"
    and b: "sequence (map (row_texts ops) rs) = Inr tss'" and c: "tss = ts # tss'"
    by (cases "row_texts ops r"; cases "sequence (map (row_texts ops) rs)") auto
  show ?case using a c Cons.IH [OF b] by (simp add: history_row_markup bind_e_def)
qed

lemma history_body_markup:
  "sequence (map (row_texts ops) rs) = Inr tss \<Longrightarrow>
     history_body ops (JArr rs) = Inr (concat (map row_markup tss))"
  by (simp add: history_body_def sequence_rows_markup bind_e_def join_empty)

lemma row_texts_length: "row_texts ops r = Inr ts \<Longrightarrow> length ts = 6"
  using sequence_Inr_nth [of "field_text ops r" history_fields ts]
  by (simp add: row_texts_def history_fields_def)

lemmas hist_defs = loadHistory_def loadHistory_resume_def loadHistory_start_def getJSON_resume_def
      getJSON_start_def fetch_def Let_def getElementById_def set_innerHTML_def

text \<open>
  C4: For every history response that is an array of \<open>N\<close> rows (\<open>N = 0\<close> included) whose
  six field texts are defined and hold no \<open><\<close>, the markup that \<open>loadHistory\<close> assigns to the
  table body reads back as exactly \<open>N\<close> rows, each of exactly six cells, the cell \<open>j\<close> of the
  row \<open>i\<close> holding the text of the field \<open>j\<close> of the row \<open>i\<close> of the response in the order
  timestamp_local, temperature_F, dry_bulb_F, wet_bulb_F, humidity_percent,
  pressure_inHg; for \<open>N = 0\<close> the markup is empty.
\<close>

theorem history_table:
  assumes "ok r" and "json (body r) = Some (JArr rs)"
    and "elements w ''histBody'' = Some c"
    and "sequence (map (row_texts ops) rs) = Inr tss"
    and "\<forall>ts\<in>set tss. \<forall>t\<in>set ts. CHR ''<'' \<notin> set t"
  shows "\<exists>html. elements (snd (loadHistory ops json (Inr r) w)) ''histBody'' = Some (InnerHTML html)
           \<and> table_rows html = tss
           \<and> length tss = length rs
           \<and> (\<forall>i<length rs. length (tss ! i) = 6
                \<and> (\<forall>j<6. field_text ops (rs ! i) (history_fields ! j) = Inr (tss ! i ! j)))
           \<and> (rs = [] \<longrightarrow> html = [])"
proof -
  let ?html = "concat (map row_markup tss)"
  have body: "history_body ops (JArr rs) = Inr ?html"
    using assms(4) by (rule history_body_markup)
  have el: "elements (snd (loadHistory ops json (Inr r) w)) ''histBody'' = Some (InnerHTML ?html)"
    using assms(1-3) body by (simp add: hist_defs bind_e_def)
  have rd: "table_rows ?html = tss"
    using assms(5) by (rule table_rows_markup)
  from sequence_Inr_nth [OF assms(4)] have len: "length tss = length rs"
    and nth: "\<forall>i<length rs. row_texts ops (rs ! i) = Inr (tss ! i)" by simp_all
  have cells: "\<forall>i<length rs. length (tss ! i) = 6
                \<and> (\<forall>j<6. field_text ops (rs ! i) (history_fields ! j) = Inr (tss ! i ! j))"
  proof (intro allI impI)
    fix i assume "i < length rs"
    with nth have rt: "row_texts ops (rs ! i) = Inr (tss ! i)" by simp
    then have "sequence (map (field_text ops (rs ! i)) history_fields) = Inr (tss ! i)"
      by (simp add: row_texts_def)
    from sequence_Inr_nth [OF this] row_texts_length [OF rt]
    show "length (tss ! i) = 6
          \<and> (\<forall>j<6. field_text ops (rs ! i) (history_fields ! j) = Inr (tss ! i ! j))"
      by (simp add: history_fields_def)
  qed
  have empty: "rs = [] \<longrightarrow> ?html = []" using len by auto
  from el rd len cells empty show ?thesis by blast
qed


theorem history_table_witness:
  "sequence (map (row_texts nat_ops) sample_history) =
      Inr [[''2024-05-01 12:00'', ''71'', ''71'', [], ''40'', []],
           [''2024-05-01 12:05'', ''72'', ''72'', ''61'', ''41'', ''30'']]
   \<and> (\<exists>html. elements (snd (loadHistory nat_ops sample_json (Inr history_response) page0))
                 ''histBody'' = Some (InnerHTML html)
         \<and> table_rows html =
             [[''2024-05-01 12:00'', ''71'', ''71'', [], ''40'', []],
              [''2024-05-01 12:05'', ''72'', ''72'', ''61'', ''41'', ''30'']])"
proof -
  have e: "elements page0 ''histBody'' = Some (InnerHTML [])" by (simp add: page0_def)
  have s: "sequence (map (row_texts nat_ops) sample_history) =
      Inr [[''2024-05-01 12:00'', ''71'', ''71'', [], ''40'', []],
           [''2024-05-01 12:05'', ''72'', ''72'', ''61'', ''41'', ''30'']]"
    by (simp add: sample_history_def nat_ops_def row_texts_def history_fields_def field_text_def
        bind_e_def show_nat.simps digit_char_def)
  have n: "\<forall>ts\<in>set [[''2024-05-01 12:00'', ''71'', ''71'', [], ''40'', []],
           [''2024-05-01 12:05'', ''72'', ''72'', ''61'', ''41'', ''30'']].
             \<forall>t\<in>set ts. CHR ''<'' \<notin> set t"
    by simp
  from history_table [where json = sample_json and r = history_response and rs = sample_history,
      OF sample_responses_ok(4) sample_json_history e s n] s
  show ?thesis by auto
qed

text \<open>
  Without the condition on the field texts the table body need not have \<open>N\<close> rows: the
  values are inserted as they are, and one row whose timestamp is the text
  \<open></td></tr><tr><td>\<close> gives markup with two rows, of one cell and of six cells.
\<close>

theorem history_table_counterexample:
  "length sample_markup = 1
   \<and> elements (snd (loadHistory nat_ops sample_json (Inr markup_response) page0)) ''histBody''
     = Some (InnerHTML
        (''\<newline>    <tr>''
          @ ''\<newline>      <td></td></tr><tr><td></td>''
          @ ''\<newline>      <td></td>''
          @ ''\<newline>      <td></td>''
          @ ''\<newline>      <td></td>''
          @ ''\<newline>      <td></td>''
          @ ''\<newline>      <td></td>''
          @ ''\<newline>    </tr>''
          @ ''\<newline>  ''))
   \<and> table_rows
        (''\<newline>    <tr>''
          @ ''\<newline>      <td></td></tr><tr><td></td>''
          @ ''\<newline>      <td></td>''
          @ ''\<newline>      <td></td>''
          @ ''\<newline>      <td></td>''
          @ ''\<newline>      <td></td>''
          @ ''\<newline>      <td></td>''
          @ ''\<newline>    </tr>''
          @ ''\<newline>  '')
      = [[[]], [[], [], [], [], [], []]]"
proof (intro conjI)
  show "length sample_markup = 1" by (simp add: sample_markup_def)
next
  show "elements (snd (loadHistory nat_ops sample_json (Inr markup_response) page0)) ''histBody''
     = Some (InnerHTML
        (''\<newline>    <tr>''
          @ ''\<newline>      <td></td></tr><tr><td></td>''
          @ ''\<newline>      <td></td>''
          @ ''\<newline>      <td></td>''
          @ ''\<newline>      <td></td>''
          @ ''\<newline>      <td></td>''
          @ ''\<newline>      <td></td>''
          @ ''\<newline>    </tr>''
          @ ''\<newline>  ''))"
    by (simp add: hist_defs sample_responses_ok sample_json_markup sample_markup_def page0_def
        history_body_def history_row_def cell_of_def cell_def bind_e_def)
next
  show "table_rows
        (''\<newline>    <tr>''
          @ ''\<newline>      <td></td></tr><tr><td></td>''
          @ ''\<newline>      <td></td>''
          @ ''\<newline>      <td></td>''
          @ ''\<newline>      <td></td>''
          @ ''\<newline>      <td></td>''
          @ ''\<newline>      <td></td>''
          @ ''\<newline>    </tr>''
          @ ''\<newline>  '')
      = [[[]], [[], [], [], [], [], []]]"
    by code_simp
qed

section \<open>The refresh cycle\<close>

lemma refreshAll_start_requests:
  "refreshAll_start w =
     (\<lparr>current_promise = Pending, history_promise = Pending, all_promise = Pending\<rparr>,
      w\<lparr>requests := requests w @ [\<lparr>url = ''/api/current'', cache = NoStore\<rparr>,
                                      \<lparr>url = ''/api/history'', cache = NoStore\<rparr>]\<rparr>)"
  by (simp add: refreshAll_start_def loadCurrent_start_def loadHistory_start_def
      getJSON_start_def fetch_def)

lemma all_after_current:
  "all_promise (fst (current_arrives ops json rc (refreshAll_start w))) =
     (case promise_of (fst (loadCurrent_resume ops json rc (snd (refreshAll_start w)))) of
        Rejected e \<Rightarrow> Rejected e
      | Fulfilled \<Rightarrow> Pending
      | Pending \<Rightarrow> Pending)"
  by (simp add: refreshAll_start_requests current_arrives_def promise_all_def
      split: prod.splits promise.splits)

lemma all_after_history:
  "all_promise (fst (history_arrives ops json rh (refreshAll_start w))) =
     (case promise_of (fst (loadHistory_resume ops json rh (snd (refreshAll_start w)))) of
        Rejected e \<Rightarrow> Rejected e
      | Fulfilled \<Rightarrow> Pending
      | Pending \<Rightarrow> Pending)"
  by (simp add: refreshAll_start_requests history_arrives_def promise_all_def
      split: prod.splits promise.splits)

lemma all_after_both:
  "all_promise (fst (history_arrives ops json rh (current_arrives ops json rc (refreshAll_start w))))
     = Fulfilled
   \<longleftrightarrow> current_promise
         (fst (history_arrives ops json rh (current_arrives ops json rc (refreshAll_start w))))
         = Fulfilled
     \<and> history_promise
         (fst (history_arrives ops json rh (current_arrives ops json rc (refreshAll_start w))))
         = Fulfilled"
  by (auto simp add: refreshAll_start_requests current_arrives_def history_arrives_def
      promise_all_def split: prod.splits promise.splits)

lemma all_after_both_swapped:
  "all_promise (fst (current_arrives ops json rc (history_arrives ops json rh (refreshAll_start w))))
     = Fulfilled
   \<longleftrightarrow> current_promise
         (fst (current_arrives ops json rc (history_arrives ops json rh (refreshAll_start w))))
         = Fulfilled
     \<and> history_promise
         (fst (current_arrives ops json rc (history_arrives ops json rh (refreshAll_start w))))
         = Fulfilled"
  by (auto simp add: refreshAll_start_requests current_arrives_def history_arrives_def
      promise_all_def split: prod.splits promise.splits)

lemma all_after_current_history:
  "all_promise (fst (history_arrives ops json rh (current_arrives ops json rc (refreshAll_start w))))
     = (case fst (loadCurrent_resume ops json rc (snd (refreshAll_start w))) of
          Inl e \<Rightarrow> Rejected e
        | Inr u \<Rightarrow>
            (case fst (loadHistory_resume ops json rh
                         (snd (current_arrives ops json rc (refreshAll_start w)))) of
               Inl e \<Rightarrow> Rejected e
             | Inr u \<Rightarrow> Fulfilled))"
  by (simp add: refreshAll_start_requests current_arrives_def history_arrives_def
      promise_all_def case_prod_unfold split: sum.splits)

lemma all_after_history_current:
  "all_promise (fst (current_arrives ops json rc (history_arrives ops json rh (refreshAll_start w))))
     = (case fst (loadHistory_resume ops json rh (snd (refreshAll_start w))) of
          Inl e \<Rightarrow> Rejected e
        | Inr u \<Rightarrow>
            (case fst (loadCurrent_resume ops json rc
                         (snd (history_arrives ops json rh (refreshAll_start w)))) of
               Inl e \<Rightarrow> Rejected e
             | Inr u \<Rightarrow> Fulfilled))"
  by (simp add: refreshAll_start_requests current_arrives_def history_arrives_def
      promise_all_def case_prod_unfold split: sum.splits)

lemma arrives_promises:
  "snd (current_arrives ops json res st) = snd (loadCurrent_resume ops json res (snd st))"
  "snd (history_arrives ops json res st) = snd (loadHistory_resume ops json res (snd st))"
  "current_promise (fst (current_arrives ops json res st))
     = promise_of (fst (loadCurrent_resume ops json res (snd st)))"
  "history_promise (fst (history_arrives ops json res st))
     = promise_of (fst (loadHistory_resume ops json res (snd st)))"
  "current_promise (fst (history_arrives ops json res st)) = current_promise (fst st)"
  "history_promise (fst (current_arrives ops json res st)) = history_promise (fst st)"
  by (simp_all add: current_arrives_def history_arrives_def case_prod_unfold)

lemma script_result:
  assumes "elements w ''copyBtn'' = Some c1" and "elements w ''refreshBtn'' = Some c2"
  shows "script w = (Inr (),
     w\<lparr>listeners := listeners w @ [(''copyBtn'', ''click'', CopyCSV),
                                      (''refreshBtn'', ''click'', RefreshAll)],
       requests := requests w @ [\<lparr>url = ''/api/current'', cache = NoStore\<rparr>,
                                    \<lparr>url = ''/api/history'', cache = NoStore\<rparr>],
       intervals := intervals w @ [(RefreshAll, 300000)]\<rparr>)"
  using assms
  by (simp add: script_def addEventListener_def getElementById_def refreshAll_start_requests
      setInterval_def)

text \<open>
  C8: \<open>refreshAll\<close> calls \<open>loadCurrent\<close> and \<open>loadHistory\<close> before it awaits anything: both
  requests are issued, in this order, and all three promises are pending. It fulfils
  only when both loaders have fulfilled, whichever response arrives first, and it
  rejects as soon as one of them rejects, with that loader's error: at the first
  arrival when the loader that resumes rejects, and otherwise at the second arrival when
  that loader rejects. On a page that has the two buttons, the script
  calls it once when it loads (no other request is issued), calls it on each click of
  the refresh button, and sets one interval of 300000 ms (5 minutes) that calls it.
\<close>

theorem refreshAll_schedule:
  assumes "elements w ''copyBtn'' = Some c1" and "elements w ''refreshBtn'' = Some c2"
    and "listeners w = []"
  shows "fst (script w) = Inr ()
     \<and> requests (snd (script w)) =
         requests w @ [\<lparr>url = ''/api/current'', cache = NoStore\<rparr>,
                       \<lparr>url = ''/api/history'', cache = NoStore\<rparr>]
     \<and> intervals (snd (script w)) = intervals w @ [(RefreshAll, 300000)]
     \<and> click ''refreshBtn'' (snd (script w)) = snd (refreshAll_start (snd (script w)))
     \<and> interval_elapses (RefreshAll, 300000) v = snd (refreshAll_start v)
     \<and> refreshAll_start v =
         (\<lparr>current_promise = Pending, history_promise = Pending, all_promise = Pending\<rparr>,
          v\<lparr>requests := requests v @ [\<lparr>url = ''/api/current'', cache = NoStore\<rparr>,
                                          \<lparr>url = ''/api/history'', cache = NoStore\<rparr>]\<rparr>)
     \<and> all_promise (fst (current_arrives ops json rc (refreshAll_start v))) =
         (case promise_of (fst (loadCurrent_resume ops json rc (snd (refreshAll_start v)))) of
            Rejected e \<Rightarrow> Rejected e
          | Fulfilled \<Rightarrow> Pending
          | Pending \<Rightarrow> Pending)
     \<and> all_promise (fst (history_arrives ops json rh (refreshAll_start v))) =
         (case promise_of (fst (loadHistory_resume ops json rh (snd (refreshAll_start v)))) of
            Rejected e \<Rightarrow> Rejected e
          | Fulfilled \<Rightarrow> Pending
          | Pending \<Rightarrow> Pending)
     \<and> (all_promise
           (fst (history_arrives ops json rh (current_arrives ops json rc (refreshAll_start v))))
           = Fulfilled
         \<longleftrightarrow> current_promise
               (fst (history_arrives ops json rh (current_arrives ops json rc (refreshAll_start v))))
               = Fulfilled
           \<and> history_promise
               (fst (history_arrives ops json rh (current_arrives ops json rc (refreshAll_start v))))
               = Fulfilled)
     \<and> (all_promise
           (fst (current_arrives ops json rc (history_arrives ops json rh (refreshAll_start v))))
           = Fulfilled
         \<longleftrightarrow> current_promise
               (fst (current_arrives ops json rc (history_arrives ops json rh (refreshAll_start v))))
               = Fulfilled
           \<and> history_promise
               (fst (current_arrives ops json rc (history_arrives ops json rh (refreshAll_start v))))
               = Fulfilled)
     \<and> all_promise
           (fst (history_arrives ops json rh (current_arrives ops json rc (refreshAll_start v))))
         = (case fst (loadCurrent_resume ops json rc (snd (refreshAll_start v))) of
              Inl e \<Rightarrow> Rejected e
            | Inr u \<Rightarrow>
                (case fst (loadHistory_resume ops json rh
                             (snd (current_arrives ops json rc (refreshAll_start v)))) of
                   Inl e \<Rightarrow> Rejected e
                 | Inr u \<Rightarrow> Fulfilled))
     \<and> all_promise
           (fst (current_arrives ops json rc (history_arrives ops json rh (refreshAll_start v))))
         = (case fst (loadHistory_resume ops json rh (snd (refreshAll_start v))) of
              Inl e \<Rightarrow> Rejected e
            | Inr u \<Rightarrow>
                (case fst (loadCurrent_resume ops json rc
                             (snd (history_arrives ops json rh (refreshAll_start v)))) of
                   Inl e \<Rightarrow> Rejected e
                 | Inr u \<Rightarrow> Fulfilled))"
proof -
  note sr = script_result [OF assms(1,2)]
  have a: "fst (script w) = Inr ()" by (simp add: sr)
  have b: "requests (snd (script w)) =
         requests w @ [\<lparr>url = ''/api/current'', cache = NoStore\<rparr>,
                       \<lparr>url = ''/api/history'', cache = NoStore\<rparr>]"
    by (simp add: sr)
  have c: "intervals (snd (script w)) = intervals w @ [(RefreshAll, 300000)]"
    by (simp add: sr)
  have d: "click ''refreshBtn'' (snd (script w)) = snd (refreshAll_start (snd (script w)))"
    using assms(3) by (simp add: sr click_def)
  have e: "interval_elapses (RefreshAll, 300000) v = snd (refreshAll_start v)"
    by (simp add: interval_elapses_def)
  show ?thesis
    using a b c d e refreshAll_start_requests [of v] all_after_current [of ops json rc v]
      all_after_history [of ops json rh v] all_after_both [of ops json rh rc v]
      all_after_both_swapped [of ops json rc rh v]
      all_after_current_history [of ops json rh rc v]
      all_after_history_current [of ops json rc rh v]
    by (intro conjI)
qed

theorem refreshAll_schedule_witness:
  "fst (script page0) = Inr ()
   \<and> requests (snd (script page0)) =
       [\<lparr>url = ''/api/current'', cache = NoStore\<rparr>, \<lparr>url = ''/api/history'', cache = NoStore\<rparr>]
   \<and> intervals (snd (script page0)) = [(RefreshAll, 300000)]
   \<and> requests (click ''refreshBtn'' (snd (script page0))) =
       [\<lparr>url = ''/api/current'', cache = NoStore\<rparr>, \<lparr>url = ''/api/history'', cache = NoStore\<rparr>,
        \<lparr>url = ''/api/current'', cache = NoStore\<rparr>, \<lparr>url = ''/api/history'', cache = NoStore\<rparr>]
   \<and> all_promise (fst (current_arrives nat_ops sample_json (Inr current_response)
         (refreshAll_start page0))) = Pending
   \<and> all_promise (fst (history_arrives nat_ops sample_json (Inr history_response)
         (current_arrives nat_ops sample_json (Inr current_response) (refreshAll_start page0))))
       = Fulfilled
   \<and> all_promise (fst (history_arrives nat_ops sample_json (Inr failed_response)
         (current_arrives nat_ops sample_json (Inr current_response) (refreshAll_start page0))))
       = Rejected (Error ''HTTP 500'')
   \<and> all_promise (fst (current_arrives nat_ops sample_json (Inr failed_response)
         (history_arrives nat_ops sample_json (Inr history_response) (refreshAll_start page0))))
       = Rejected (Error ''HTTP 500'')"
proof -
  have e1: "elements page0 ''copyBtn'' = Some (TextContent ''Copy 48h CSV to Clipboard'')"
    by (simp add: page0_def)
  have e2: "elements page0 ''refreshBtn'' = Some (TextContent ''Refresh'')"
    by (simp add: page0_def)
  have l: "listeners page0 = []" by (simp add: page0_def)
  have q: "requests page0 = []" "intervals page0 = []" by (simp_all add: page0_def)
  have cur: "fst (loadCurrent_resume nat_ops sample_json (Inr current_response)
               (snd (refreshAll_start page0))) = Inr ()"
    by (simp add: loadCurrent_resume_def getJSON_resume_def sample_responses_ok
        sample_json_current refreshAll_start_requests getElementById_def set_innerHTML_def
        set_textContent_def current_panel_def stamp_text_def subst_def subst_or_empty_def
        bind_e_def nullish_or_def sample_current_def nat_ops_def page0_def)
  have hist: "fst (loadHistory_resume nat_ops sample_json (Inr history_response)
               (snd (current_arrives nat_ops sample_json (Inr current_response)
                  (refreshAll_start page0)))) = Inr ()"
    by (simp add: loadHistory_resume_def loadCurrent_resume_def current_arrives_def
        getJSON_resume_def sample_responses_ok
        sample_json_current sample_json_history refreshAll_start_requests getElementById_def
        set_innerHTML_def set_textContent_def current_panel_def stamp_text_def subst_def
        subst_or_empty_def history_body_def history_row_def cell_of_def cell_def
        bind_e_def nullish_or_def sample_current_def sample_history_def nat_ops_def page0_def)
  have both: "current_promise (fst (history_arrives nat_ops sample_json (Inr history_response)
         (current_arrives nat_ops sample_json (Inr current_response) (refreshAll_start page0))))
       = Fulfilled
     \<and> history_promise (fst (history_arrives nat_ops sample_json (Inr history_response)
         (current_arrives nat_ops sample_json (Inr current_response) (refreshAll_start page0))))
       = Fulfilled"
    using cur hist
    by (simp add: arrives_promises)
  have hist0: "fst (loadHistory_resume nat_ops sample_json (Inr history_response)
               (snd (refreshAll_start page0))) = Inr ()"
    by (simp add: loadHistory_resume_def getJSON_resume_def sample_responses_ok
        sample_json_history refreshAll_start_requests getElementById_def set_innerHTML_def
        history_body_def history_row_def cell_of_def cell_def bind_e_def sample_history_def
        nat_ops_def page0_def)
  have failed: "fst (loadHistory_resume nat_ops sample_json (Inr failed_response) u)
                  = Inl (Error ''HTTP 500'')"
    "fst (loadCurrent_resume nat_ops sample_json (Inr failed_response) u)
                  = Inl (Error ''HTTP 500'')" for u
    by (simp_all add: loadHistory_resume_def loadCurrent_resume_def getJSON_resume_def ok_def
        failed_response_def show_nat.simps digit_char_def)
  from refreshAll_schedule [OF e1 e2 l, of page0 nat_ops sample_json "Inr current_response"
      "Inr history_response"] q cur both
  have first: "fst (script page0) = Inr ()
   \<and> requests (snd (script page0)) =
       [\<lparr>url = ''/api/current'', cache = NoStore\<rparr>, \<lparr>url = ''/api/history'', cache = NoStore\<rparr>]
   \<and> intervals (snd (script page0)) = [(RefreshAll, 300000)]
   \<and> requests (click ''refreshBtn'' (snd (script page0))) =
       [\<lparr>url = ''/api/current'', cache = NoStore\<rparr>, \<lparr>url = ''/api/history'', cache = NoStore\<rparr>,
        \<lparr>url = ''/api/current'', cache = NoStore\<rparr>, \<lparr>url = ''/api/history'', cache = NoStore\<rparr>]
   \<and> all_promise (fst (current_arrives nat_ops sample_json (Inr current_response)
         (refreshAll_start page0))) = Pending
   \<and> all_promise (fst (history_arrives nat_ops sample_json (Inr history_response)
         (current_arrives nat_ops sample_json (Inr current_response) (refreshAll_start page0))))
       = Fulfilled"
    by (simp add: refreshAll_start_requests)
  from refreshAll_schedule [OF e1 e2 l, of page0 nat_ops sample_json "Inr current_response"
      "Inr failed_response"]
  have "all_promise (fst (history_arrives nat_ops sample_json (Inr failed_response)
         (current_arrives nat_ops sample_json (Inr current_response) (refreshAll_start page0))))
       = (case fst (loadCurrent_resume nat_ops sample_json (Inr current_response)
                      (snd (refreshAll_start page0))) of
            Inl e \<Rightarrow> Rejected e
          | Inr u \<Rightarrow>
              (case fst (loadHistory_resume nat_ops sample_json (Inr failed_response)
                           (snd (current_arrives nat_ops sample_json (Inr current_response)
                              (refreshAll_start page0)))) of
                 Inl e \<Rightarrow> Rejected e
               | Inr u \<Rightarrow> Fulfilled))"
    by blast
  with cur failed
  have late: "all_promise (fst (history_arrives nat_ops sample_json (Inr failed_response)
         (current_arrives nat_ops sample_json (Inr current_response) (refreshAll_start page0))))
       = Rejected (Error ''HTTP 500'')"
    by simp
  from refreshAll_schedule [OF e1 e2 l, of page0 nat_ops sample_json "Inr failed_response"
      "Inr history_response"]
  have "all_promise (fst (current_arrives nat_ops sample_json (Inr failed_response)
         (history_arrives nat_ops sample_json (Inr history_response) (refreshAll_start page0))))
       = (case fst (loadHistory_resume nat_ops sample_json (Inr history_response)
                      (snd (refreshAll_start page0))) of
            Inl e \<Rightarrow> Rejected e
          | Inr u \<Rightarrow>
              (case fst (loadCurrent_resume nat_ops sample_json (Inr failed_response)
                           (snd (history_arrives nat_ops sample_json (Inr history_response)
                              (refreshAll_start page0)))) of
                 Inl e \<Rightarrow> Rejected e
               | Inr u \<Rightarrow> Fulfilled))"
    by blast
  with hist0 failed
  have late2: "all_promise (fst (current_arrives nat_ops sample_json (Inr failed_response)
         (history_arrives nat_ops sample_json (Inr history_response) (refreshAll_start page0))))
       = Rejected (Error ''HTTP 500'')"
    by simp
  from first late late2 show ?thesis by simp
qed

text \<open>
  \<open>refreshAll\<close> does not wait for both loaders in every case: when the current reading
  answers with status 500, \<open>refreshAll\<close> has rejected while \<open>loadHistory\<close> is still
  pending.
\<close>

theorem refreshAll_schedule_counterexample:
  "all_promise (fst (current_arrives nat_ops sample_json (Inr failed_response)
       (refreshAll_start page0))) = Rejected (Error ''HTTP 500'')
   \<and> history_promise (fst (current_arrives nat_ops sample_json (Inr failed_response)
       (refreshAll_start page0))) = Pending"
  by (simp add: refreshAll_start_requests current_arrives_def promise_all_def
      loadCurrent_resume_def getJSON_resume_def ok_def failed_response_def show_nat.simps
      digit_char_def)

end
